theory Spec2Isabelle
  imports Complex_Main "HOL-Library.AList"
begin

section \<open>KatsEnsemble: a shallow embedding of \<open>models/ensemble/kats_ensemble.py\<close>\<close>

text \<open>
  Conventions of the embedding.

  \<^item> A Python exception is a value of \<open>pyerror\<close>; a function that may raise returns
    \<open>pyerror + 'a\<close>, with \<open>Inl\<close> for the exception.
  \<^item> A Python \<open>dict\<close> is an association list in insertion order whose keys are distinct;
    \<open>d[k] = v\<close> is \<open>AList.update k v d\<close> (an existing key keeps its place, a new key goes to
    the end), \<open>d.values()\<close> is \<open>map snd d\<close>, \<open>d.keys()\<close> is \<open>map fst d\<close>.
  \<^item> Floating-point numbers are idealised as real numbers: rounding, overflow and the
    infinities are outside the model. Not-a-number is kept, as \<open>None\<close> of a \<open>real option\<close>,
    because the code tests for it.
  \<^item> The statistical collaborators that are imported from other modules (the seasonality
    detector, the decomposition, the fitting of one model, the backtest of one model) are
    parameters of the model and are total: their own exceptions are outside the model.
\<close>

subsection \<open>Exceptions, registries\<close>

datatype pyerror =
    ValueError string
  | KeyError string
  | AttributeError string
  | UnboundLocalError string
  | ZeroDivisionError
  | RemoteError string

datatype model_class =
    ARIMAModel | HoltWintersModel | SARIMAModel | ProphetModel
  | LinearModel | QuadraticModel | ThetaModel

text \<open>The module-level registries \<open>MODELS\<close> and \<open>SMODELS\<close>.\<close>

definition MODELS :: "(string \<times> model_class) list" where
  "MODELS =
     [(''arima'', ARIMAModel),
      (''holtwinters'', HoltWintersModel),
      (''sarima'', SARIMAModel),
      (''prophet'', ProphetModel),
      (''linear'', LinearModel),
      (''quadratic'', QuadraticModel),
      (''theta'', ThetaModel)]"

definition SMODELS :: "(string \<times> model_class) list" where
  "SMODELS = [(''prophet'', ProphetModel), (''theta'', ThetaModel)]"

subsection \<open>The size of the worker pool\<close>

text \<open>
  \<open>num_process = min(len(MODELS), (cpu_count() - 1) // 2)\<close>, the same expression in
  \<open>fitExecutor\<close>, \<open>forecastExecutor\<close> and \<open>_backtester_all\<close>. Python's \<open>//\<close> on integers
  is floor division, which is \<open>div\<close> on \<open>int\<close>.
\<close>

definition num_process :: "int \<Rightarrow> int" where
  "num_process cpu = min (int (length MODELS)) ((cpu - 1) div 2)"

text \<open>
  \<open>multiprocessing.Manager().Pool(processes=..., maxtasksperchild=1000)\<close>. The value is
  the pool that was created, which is its number of worker processes. The pool of the
  standard library refuses a number of processes below one; it is created in the process
  of the manager, so the caller gets that refusal as a \<open>RemoteError\<close>.
\<close>

definition Pool :: "int \<Rightarrow> pyerror + nat" where
  "Pool processes =
     (if processes < 1 then Inl (RemoteError ''Number of processes must be at least 1'')
      else Inr (nat processes))"

subsection \<open>From backtest errors to weights\<close>

text \<open>\<open>sys.float_info.epsilon\<close> of an IEEE double.\<close>

definition float_epsilon :: real where
  "float_epsilon = 1 / 2 ^ 52"

text \<open>
  The two dictionary comprehensions that stand, with the same text, at the end of
  \<open>_backtester_all\<close> (over \<open>self.errors\<close>) and of \<open>forecast\<close> (over \<open>self.err\<close>):

  \<^verbatim>\<open>original_weights = {model: 1 / (err + sys.float_info.epsilon) for model, err in errors.items()}\<close>

  \<^verbatim>\<open>weights = {model: err / sum(original_weights.values()) for model, err in original_weights.items()}\<close>

  In the second one the loop variable \<open>err\<close> is bound to the values of
  \<open>original_weights\<close>, that is, to the reciprocals. A division by zero raises.
\<close>

definition original_weights :: "(string \<times> real) list \<Rightarrow> pyerror + (string \<times> real) list" where
  "original_weights errors =
     (if list_ex (\<lambda>(model, err). err + float_epsilon = 0) errors then Inl ZeroDivisionError
      else Inr (map (\<lambda>(model, err). (model, 1 / (err + float_epsilon))) errors))"

definition normalised_weights :: "(string \<times> real) list \<Rightarrow> pyerror + (string \<times> real) list" where
  "normalised_weights ow =
     (if ow \<noteq> [] \<and> sum_list (map snd ow) = 0 then Inl ZeroDivisionError
      else Inr (map (\<lambda>(model, err). (model, err / sum_list (map snd ow))) ow))"

definition weights_of_errors :: "(string \<times> real) list \<Rightarrow> pyerror + (string \<times> real) list" where
  "weights_of_errors errors =
     (case original_weights errors of
        Inl e \<Rightarrow> Inl e
      | Inr ow \<Rightarrow> normalised_weights ow)"

text \<open>The last lines of \<open>forecast\<close>: weights only under \<open>weightedavg\<close>.\<close>

definition forecast_weights ::
  "string \<Rightarrow> (string \<times> real) list \<Rightarrow> pyerror + (string \<times> real) list option" where
  "forecast_weights aggregation err =
     (if aggregation = ''weightedavg'' then
        (case weights_of_errors err of
           Inl e \<Rightarrow> Inl e
         | Inr weights \<Rightarrow> Inr (Some weights))
      else Inr None)"

subsection \<open>Data, parameters and collaborators\<close>

text \<open>
  A cell of a numeric column is a real number or not-a-number (\<open>None\<close>). A
  \<open>pandas.DataFrame\<close> is its index and its columns, in order, all as long as the index.
  Time stamps are cells as well, so that the column \<open>time\<close> can become the index.

  \<open>TimeSeriesData\<close>: a time column and a value column. \<open>BaseModelParams\<close>: a model name and
  the parameters of that model, opaque here. \<open>EnsembleParams\<close> only wraps the list
  \<open>models\<close>, so it is that list.
\<close>

type_synonym cell = "real option"

record frame =
  index :: "cell list"
  columns :: "(string \<times> cell list) list"

record series =
  ts_time :: "cell list"
  ts_value :: "cell list"

record 'p BaseModelParams =
  model_name :: string
  model_params :: 'p

text \<open>
  What this module gets from other modules: \<open>cpu_count()\<close>; the ACF detector, which is
  all of \<open>seasonality_detector\<close>; \<open>_fit_single\<close>, which constructs a model of a class
  on data and fits it; the \<open>predict\<close> method of a fitted model; and
  \<open>_backtester_single\<close>, the error value of a \<open>BackTesterSimple\<close> run for an error
  method. The static method \<open>deseasonalize\<close>, which runs the STL decomposition and then
  subtracts the seasonal component from the values, or divides them by it, is a parameter
  as a whole: it returns the pair of the seasonal and the deseasonalized series, and no
  property below depends on the numbers in them.
\<close>

record ('p, 'f) collaborators =
  cpu_count :: int
  seasonality_detector :: "series \<Rightarrow> bool"
  deseasonalize :: "series \<Rightarrow> string \<Rightarrow> series \<times> series"
  fit_single :: "series \<Rightarrow> model_class \<Rightarrow> 'p \<Rightarrow> 'f"
  predict_fitted :: "'f \<Rightarrow> int \<Rightarrow> frame"
  backtester_single :: "series \<Rightarrow> 'p \<Rightarrow> model_class \<Rightarrow> string \<Rightarrow> real"

subsection \<open>Strings\<close>

text \<open>
  \<open>str.lower()\<close> on ASCII, and \<open>name.split("_")[0]\<close>, which is the part of the name before
  its first underscore (the whole name when it has none).
\<close>

definition lower_char :: "char \<Rightarrow> char" where
  "lower_char c =
     (case map_of (zip ''ABCDEFGHIJKLMNOPQRSTUVWXYZ'' ''abcdefghijklmnopqrstuvwxyz'') c of
        Some d \<Rightarrow> d
      | None \<Rightarrow> c)"

definition lower :: "string \<Rightarrow> string" where
  "lower s = map lower_char s"

definition split_first :: "string \<Rightarrow> string" where
  "split_first s = takeWhile (\<lambda>c. c \<noteq> CHR ''_'') s"

text \<open>\<open>MODELS[model.model_name.split("_")[0].lower()]\<close>, a \<open>KeyError\<close> for an unknown key.\<close>

definition model_class_of :: "string \<Rightarrow> pyerror + model_class" where
  "model_class_of name =
     (case map_of MODELS (lower (split_first name)) of
        None \<Rightarrow> Inl (KeyError (lower (split_first name)))
      | Some cls \<Rightarrow> Inr cls)"

subsection \<open>\<open>_backtester_all\<close>\<close>

text \<open>
  The loop that submits one backtest for each model of \<open>self.model_params.models\<close> and
  stores its result under the model's name; the results are read once the pool is joined,
  so the dictionary \<open>self.errors\<close> has the keys in the order of their first insertion.
\<close>

fun backtesters ::
  "('p, 'f) collaborators \<Rightarrow> series \<Rightarrow> string \<Rightarrow> 'p BaseModelParams list \<Rightarrow>
   (string \<times> real) list \<Rightarrow> pyerror + (string \<times> real) list" where
  "backtesters env data err_method [] acc = Inr acc"
| "backtesters env data err_method (model # rest) acc =
     (case model_class_of (model_name model) of
        Inl e \<Rightarrow> Inl e
      | Inr cls \<Rightarrow>
          backtesters env data err_method rest
            (AList.update (model_name model)
               (backtester_single env data (model_params model) cls err_method) acc))"

text \<open>
  The worker pool that \<open>_backtester_all\<close> creates, in its first two lines, before it
  submits anything.
\<close>

definition backtester_all_pool :: "('p, 'f) collaborators \<Rightarrow> pyerror + nat" where
  "backtester_all_pool env = Pool (num_process (cpu_count env))"

text \<open>
  \<open>_backtester_all\<close> returns the pair \<open>(weights, self.errors)\<close>; its arguments are what it
  reads of the object: \<open>self.data\<close> and \<open>self.model_params.models\<close>.
\<close>

definition backtester_all ::
  "('p, 'f) collaborators \<Rightarrow> series \<Rightarrow> 'p BaseModelParams list \<Rightarrow> string \<Rightarrow>
   pyerror + ((string \<times> real) list \<times> (string \<times> real) list)" where
  "backtester_all env data models err_method =
     (case backtester_all_pool env of
        Inl e \<Rightarrow> Inl e
      | Inr pool \<Rightarrow>
          (case backtesters env data err_method models [] of
             Inl e \<Rightarrow> Inl e
           | Inr errors \<Rightarrow>
               (case weights_of_errors errors of
                  Inl e \<Rightarrow> Inl e
                | Inr weights \<Rightarrow> Inr (weights, errors))))"

subsection \<open>Data frames and array arithmetic\<close>

definition has_column :: "string \<Rightarrow> frame \<Rightarrow> bool" where
  "has_column c df = (c \<in> set (map fst (columns df)))"

text \<open>\<open>df.set_index("time")\<close>, for a frame that has the column.\<close>

definition set_index :: "string \<Rightarrow> frame \<Rightarrow> pyerror + frame" where
  "set_index c df =
     (case map_of (columns df) c of
        None \<Rightarrow> Inl (KeyError c)
      | Some col \<Rightarrow> Inr \<lparr>index = col, columns = filter (\<lambda>(name, v). name \<noteq> c) (columns df)\<rparr>)"

text \<open>Arithmetic on cells: not-a-number is absorbing.\<close>

fun cell_op :: "(real \<Rightarrow> real \<Rightarrow> real) \<Rightarrow> cell \<Rightarrow> cell \<Rightarrow> cell" where
  "cell_op f (Some a) (Some b) = Some (f a b)"
| "cell_op f _ _ = None"

text \<open>
  Python slices \<open>xs[k:]\<close> and \<open>xs[:k]\<close> for an integer \<open>k\<close>: a negative bound counts from
  the end, and a bound outside the list is clipped.
\<close>

definition slice_from :: "int \<Rightarrow> 'a list \<Rightarrow> 'a list" where
  "slice_from k xs = (if 0 \<le> k then drop (nat k) xs else drop (length xs - nat (- k)) xs)"

definition slice_to :: "int \<Rightarrow> 'a list \<Rightarrow> 'a list" where
  "slice_to k xs = (if 0 \<le> k then take (nat k) xs else take (length xs - nat (- k)) xs)"

text \<open>\<open>np.tile(xs, rep)\<close> on a one-dimensional array; a negative count is refused.\<close>

definition tile :: "'a list \<Rightarrow> int \<Rightarrow> pyerror + 'a list" where
  "tile xs rep =
     (if rep < 0 then Inl (ValueError ''negative dimensions are not allowed'')
      else Inr (concat (replicate (nat rep) xs)))"

text \<open>
  A column (a \<open>pandas.Series\<close>) combined with a one-dimensional array: the lengths agree,
  or the array has one element, which is broadcast; anything else is refused.
\<close>

definition series_arith ::
  "(real \<Rightarrow> real \<Rightarrow> real) \<Rightarrow> cell list \<Rightarrow> cell list \<Rightarrow> pyerror + cell list" where
  "series_arith f col arr =
     (if length arr = length col then Inr (map2 (cell_op f) col arr)
      else if length arr = 1 then Inr (map (\<lambda>c. cell_op f c (hd arr)) col)
      else Inl (ValueError ''operands could not be broadcast together''))"

text \<open>
  A frame combined with \<open>np.tile(arr, [3, 1]).transpose()\<close>, the two-dimensional array
  with three columns that each are \<open>arr\<close>: the shapes agree, or the frame has three columns
  and the array one row, which is broadcast; anything else is refused.
\<close>

definition frame_arith ::
  "(real \<Rightarrow> real \<Rightarrow> real) \<Rightarrow> frame \<Rightarrow> cell list \<Rightarrow> pyerror + frame" where
  "frame_arith f df arr =
     (if length (columns df) = 3 \<and> length arr = length (index df) then
        Inr (df\<lparr>columns := map (\<lambda>(name, col). (name, map2 (cell_op f) col arr)) (columns df)\<rparr>)
      else if length (columns df) = 3 \<and> length arr = 1 then
        Inr (df\<lparr>columns := map (\<lambda>(name, col). (name, map (\<lambda>c. cell_op f c (hd arr)) col))
                              (columns df)\<rparr>)
      else Inl (ValueError ''Unable to coerce to DataFrame''))"

subsection \<open>\<open>reseasonalize\<close>\<close>

text \<open>
  \<open>rep = math.trunc(1 + steps / seasonality_length)\<close>: a true division, which raises on a
  zero divisor, then a truncation towards zero.
\<close>

definition trunc :: "real \<Rightarrow> int" where
  "trunc x = (if 0 \<le> x then \<lfloor>x\<rfloor> else \<lceil>x\<rceil>)"

definition repetitions :: "int \<Rightarrow> int \<Rightarrow> pyerror + int" where
  "repetitions steps seasonality_length =
     (if seasonality_length = 0 then Inl ZeroDivisionError
      else Inr (trunc (1 + real_of_int steps / real_of_int seasonality_length)))"

text \<open>\<open>np.tile(seasonality_unit, rep)[:steps]\<close>\<close>

definition tiled_unit :: "cell list \<Rightarrow> int \<Rightarrow> int \<Rightarrow> pyerror + cell list" where
  "tiled_unit seasonality_unit rep steps =
     (case tile seasonality_unit rep of
        Inl e \<Rightarrow> Inl e
      | Inr t \<Rightarrow> Inr (slice_to steps t))"

text \<open>
  The body of the loop, for one model. \<open>op\<close> is \<open>+\<close> under \<open>additive\<close> and \<open>*\<close> otherwise;
  \<open>fill\<close> is the value both bounds get when the frame lacks one of them: \<open>np.nan\<close> under
  \<open>additive\<close> and \<open>0\<close> otherwise.
\<close>

definition reseasonalize_frame ::
  "(real \<Rightarrow> real \<Rightarrow> real) \<Rightarrow> cell \<Rightarrow> cell list \<Rightarrow> int \<Rightarrow> int \<Rightarrow> frame \<Rightarrow> pyerror + frame" where
  "reseasonalize_frame op fill seasonality_unit rep steps desea_pred =
     (if has_column ''fcst_lower'' desea_pred \<and> has_column ''fcst_upper'' desea_pred then
        (case (if has_column ''time'' desea_pred then set_index ''time'' desea_pred
               else Inr desea_pred) of
           Inl e \<Rightarrow> Inl e
         | Inr df \<Rightarrow>
             (case tiled_unit seasonality_unit rep steps of
                Inl e \<Rightarrow> Inl e
              | Inr arr \<Rightarrow> frame_arith op df arr))
      else
        (case map_of (columns desea_pred) ''fcst'' of
           None \<Rightarrow> Inl (AttributeError ''fcst'')
         | Some fcst \<Rightarrow>
             (case tiled_unit seasonality_unit rep steps of
                Inl e \<Rightarrow> Inl e
              | Inr arr \<Rightarrow>
                  (case series_arith op fcst arr of
                     Inl e \<Rightarrow> Inl e
                   | Inr tmp_fcst \<Rightarrow>
                       Inr \<lparr>index = index desea_pred,
                            columns =
                              [(''fcst'', tmp_fcst),
                               (''fcst_lower'', replicate (length (index desea_pred)) fill),
                               (''fcst_upper'', replicate (length (index desea_pred)) fill)]\<rparr>))))"

fun reseasonalize_loop ::
  "string \<Rightarrow> cell list \<Rightarrow> int \<Rightarrow> int \<Rightarrow> (string \<times> frame) list \<Rightarrow> (string \<times> frame) list \<Rightarrow>
   pyerror + (string \<times> frame) list" where
  "reseasonalize_loop decomposition_method seasonality_unit rep steps [] predicted =
     Inr predicted"
| "reseasonalize_loop decomposition_method seasonality_unit rep steps
     ((name, desea_pred) # rest) predicted =
     (case (if decomposition_method = ''additive''
            then reseasonalize_frame (+) None seasonality_unit rep steps desea_pred
            else reseasonalize_frame (*) (Some 0) seasonality_unit rep steps desea_pred) of
        Inl e \<Rightarrow> Inl e
      | Inr df \<Rightarrow>
          reseasonalize_loop decomposition_method seasonality_unit rep steps rest
            (AList.update name df predicted))"

definition reseasonalize ::
  "series \<Rightarrow> (string \<times> frame) list \<Rightarrow> string \<Rightarrow> int \<Rightarrow> int \<Rightarrow>
   pyerror + (string \<times> frame) list" where
  "reseasonalize sea_data desea_predict decomposition_method seasonality_length steps =
     (case repetitions steps seasonality_length of
        Inl e \<Rightarrow> Inl e
      | Inr rep \<Rightarrow>
          reseasonalize_loop decomposition_method
            (slice_from (- seasonality_length) (ts_value sea_data)) rep steps desea_predict [])"

subsection \<open>The ensemble object\<close>

text \<open>
  The dictionary \<open>params\<close>. The keys \<open>models\<close>, \<open>aggregation\<close>, \<open>decomposition_method\<close> and
  \<open>seasonality_length\<close> are read unconditionally and are fields; \<open>seasonality_length\<close>
  may be \<open>None\<close>. For the two executors the code tells an absent key (\<open>None\<close> here) from a
  key that is present with the value \<open>None\<close> (\<open>Some None\<close>) and from a key with a
  callable (\<open>Some (Some f)\<close>). A custom executor is opaque.
\<close>

record ('p, 'x) Params =
  param_models :: "'p BaseModelParams list"
  param_aggregation :: string
  param_decomposition_method :: string
  param_seasonality_length :: "int option"
  param_fitExecutor :: "'x option option"
  param_forecastExecutor :: "'x option option"

text \<open>
  The attributes of a \<open>KatsEnsemble\<close> that the modelled methods read or write; an
  attribute that is not set yet, or is \<open>None\<close>, is \<open>None\<close>. \<open>custom_fitExecutor\<close> and
  \<open>custom_forecastExecutor\<close> are the instance attributes \<open>fitExecutor\<close> and
  \<open>forecastExecutor\<close> that \<open>validate_params\<close> may set and that then shadow the methods
  of the class. The attributes \<open>freq\<close>, \<open>errors\<close>, \<open>err\<close>, \<open>dates\<close>, \<open>fcst_dates\<close> and
  \<open>fcst_df\<close> are left out: what is modelled does not read them (\<open>aggregate\<close> takes the
  dates, which are computed from \<open>freq\<close>, as an argument).
\<close>

record ('p, 'f, 'x) KatsEnsemble =
  data :: series
  params :: "('p, 'x) Params"
  decomposition_method :: "string option"
  custom_fitExecutor :: "'x option"
  custom_forecastExecutor :: "'x option"
  seasonality :: "bool option"
  sea_data :: "series option"
  desea_data :: "series option"
  ensemble_model_params :: "'p BaseModelParams list option"
  fitted :: "(string \<times> 'f) list option"
  weights :: "(string \<times> real) list option"
  steps :: "int option"
  predicted :: "(string \<times> frame) list option"

subsection \<open>\<open>validate_params\<close> and \<open>__init__\<close>\<close>

definition validate_params ::
  "('p, 'f, 'x) KatsEnsemble \<Rightarrow> pyerror + ('p, 'f, 'x) KatsEnsemble" where
  "validate_params self =
     (if param_aggregation (params self) \<notin> set [''median'', ''weightedavg''] then
        Inl (ValueError ''Only support `median` or `weightedavg` ensemble'')
      else
        let self1 =
              (if param_decomposition_method (params self) \<in> set [''additive'', ''multiplicative'']
               then self\<lparr>decomposition_method := Some (param_decomposition_method (params self))\<rparr>
               else self\<lparr>decomposition_method := Some ''additive''\<rparr>)
        in
          if (case param_seasonality_length (params self) of
                None \<Rightarrow> False
              | Some m \<Rightarrow> m > int (length (ts_time (data self)) div 2)) then
            Inl (ValueError ''seasonality_length value cannot be larger than'')
          else
            let self2 =
                  (case param_forecastExecutor (params self) of
                     Some (Some f) \<Rightarrow> self1\<lparr>custom_forecastExecutor := Some f\<rparr>
                   | _ \<Rightarrow> self1);
                self3 =
                  (case param_fitExecutor (params self) of
                     Some (Some f) \<Rightarrow> self2\<lparr>custom_fitExecutor := Some f\<rparr>
                   | _ \<Rightarrow> self2)
            in Inr self3)"

text \<open>
  \<open>__init__\<close> stores the data, infers the frequency of its time stamps, stores the
  parameters and validates them. \<open>pd.infer_freq\<close> needs at least three time stamps and
  raises otherwise; the frequency it returns goes to \<open>self.freq\<close>, which is left out here.
\<close>

definition infer_freq :: "cell list \<Rightarrow> pyerror + unit" where
  "infer_freq t =
     (if length t < 3 then Inl (ValueError ''Need at least 3 dates to infer frequency'')
      else Inr ())"

definition new_object :: "series \<Rightarrow> ('p, 'x) Params \<Rightarrow> ('p, 'f, 'x) KatsEnsemble" where
  "new_object d ps =
     \<lparr>data = d, params = ps, decomposition_method = None, custom_fitExecutor = None,
      custom_forecastExecutor = None, seasonality = None, sea_data = None,
      desea_data = None, ensemble_model_params = None, fitted = None, weights = None,
      steps = None, predicted = None\<rparr>"

definition init ::
  "series \<Rightarrow> ('p, 'x) Params \<Rightarrow> pyerror + ('p, 'f, 'x) KatsEnsemble" where
  "init d ps =
     (case infer_freq (ts_time d) of
        Inl e \<Rightarrow> Inl e
      | Inr freq \<Rightarrow> validate_params (new_object d ps))"

subsection \<open>The default executors\<close>

text \<open>The loop of \<open>fitExecutor\<close> and \<open>forecastExecutor\<close> that fits every model.\<close>

fun fitted_models ::
  "('p, 'f) collaborators \<Rightarrow> series \<Rightarrow> 'p BaseModelParams list \<Rightarrow>
   (string \<times> 'f) list \<Rightarrow> pyerror + (string \<times> 'f) list" where
  "fitted_models env d [] acc = Inr acc"
| "fitted_models env d (model # rest) acc =
     (case model_class_of (model_name model) of
        Inl e \<Rightarrow> Inl e
      | Inr cls \<Rightarrow>
          fitted_models env d rest
            (AList.update (model_name model) (fit_single env d cls (model_params model)) acc))"

definition backTestExecutor ::
  "('p, 'f) collaborators \<Rightarrow> ('p, 'f, 'x) KatsEnsemble \<Rightarrow> pyerror + (string \<times> real) list" where
  "backTestExecutor env self =
     (case ensemble_model_params self of
        None \<Rightarrow> Inl (AttributeError ''model_params'')
      | Some ms \<Rightarrow>
          (case backtester_all env (data self) ms ''mape'' of
             Inl e \<Rightarrow> Inl e
           | Inr (ws, errs) \<Rightarrow> Inr ws))"

text \<open>
  The worker pool that \<open>fitExecutor\<close> creates, in its first two lines, before it submits
  anything.
\<close>

definition fitExecutor_pool :: "('p, 'f) collaborators \<Rightarrow> pyerror + nat" where
  "fitExecutor_pool env = Pool (num_process (cpu_count env))"

definition fitExecutor ::
  "('p, 'f) collaborators \<Rightarrow> ('p, 'f, 'x) KatsEnsemble \<Rightarrow> series \<Rightarrow>
   'p BaseModelParams list \<Rightarrow> bool \<Rightarrow>
   pyerror + ((string \<times> 'f) list \<times> (string \<times> real) list option)" where
  "fitExecutor env self d ms should_auto_backtest =
     (case fitExecutor_pool env of
        Inl e \<Rightarrow> Inl e
      | Inr pool \<Rightarrow>
          (case fitted_models env d ms [] of
             Inl e \<Rightarrow> Inl e
           | Inr fitted_ms \<Rightarrow>
               if should_auto_backtest then
                 (case backTestExecutor env self of
                    Inl e \<Rightarrow> Inl e
                  | Inr ws \<Rightarrow> Inr (fitted_ms, Some ws))
               else Inr (fitted_ms, None)))"

text \<open>The loop of \<open>forecastExecutor\<close> that predicts with every fitted model.\<close>

fun predicted_frames ::
  "('p, 'f) collaborators \<Rightarrow> int \<Rightarrow> (string \<times> 'f) list \<Rightarrow> (string \<times> frame) list \<Rightarrow>
   pyerror + (string \<times> frame) list" where
  "predicted_frames env n [] acc = Inr acc"
| "predicted_frames env n ((name, model_fitted) # rest) acc =
     (case set_index ''time'' (predict_fitted env model_fitted n) of
        Inl e \<Rightarrow> Inl e
      | Inr df \<Rightarrow> predicted_frames env n rest (AList.update name df acc))"

text \<open>
  \<open>forecastExecutor\<close> returns the pair \<open>(predicted, errors)\<close>; it also sets
  \<open>self.model_params\<close> to its argument \<open>models\<close>, which is what \<open>_backtester_all\<close> then
  reads.
\<close>

text \<open>
  The worker pool that \<open>forecastExecutor\<close> creates, in its first two lines, before it
  submits anything.
\<close>

definition forecastExecutor_pool :: "('p, 'f) collaborators \<Rightarrow> pyerror + nat" where
  "forecastExecutor_pool env = Pool (num_process (cpu_count env))"

definition forecastExecutor ::
  "('p, 'f) collaborators \<Rightarrow> ('p, 'f, 'x) KatsEnsemble \<Rightarrow> series \<Rightarrow>
   'p BaseModelParams list \<Rightarrow> int \<Rightarrow> bool \<Rightarrow>
   pyerror + ((string \<times> frame) list \<times> (string \<times> real) list option)" where
  "forecastExecutor env self d ms n should_auto_backtest =
     (case forecastExecutor_pool env of
        Inl e \<Rightarrow> Inl e
      | Inr pool \<Rightarrow>
          (case fitted_models env d ms [] of
             Inl e \<Rightarrow> Inl e
           | Inr fitted_ms \<Rightarrow>
               (case predicted_frames env n fitted_ms [] of
                  Inl e \<Rightarrow> Inl e
                | Inr frames \<Rightarrow>
                    if should_auto_backtest then
                      (case backtester_all env (data self) ms ''mape'' of
                         Inl e \<Rightarrow> Inl e
                       | Inr (ws, errs) \<Rightarrow> Inr (frames, Some errs))
                    else Inr (frames, None))))"

subsection \<open>\<open>fit\<close>\<close>

text \<open>
  The models \<open>fit\<close> hands to the executor on a seasonal series: the configured ones, then a
  copy named \<open>name + "_smodel"\<close> of each configured model whose lower-cased name is a key of
  \<open>SMODELS\<close>.
\<close>

definition given_models :: "'p BaseModelParams list \<Rightarrow> 'p BaseModelParams list" where
  "given_models ms =
     ms @ map (\<lambda>m. m\<lparr>model_name := model_name m @ ''_smodel''\<rparr>)
            (filter (\<lambda>m. lower (model_name m) \<in> set (map fst SMODELS)) ms)"

text \<open>
  \<open>fit\<close>. The local name \<open>fitExecutor\<close> is bound, to the attribute \<open>self.fitExecutor\<close>, only
  when \<open>params\<close> has no key \<open>fitExecutor\<close>; in that case \<open>validate_params\<close> has not set the
  attribute, so it is the method of the class. With the key present the call of the local
  name raises \<open>UnboundLocalError\<close>.
\<close>

definition fit ::
  "('p, 'f) collaborators \<Rightarrow> ('p, 'f, 'x) KatsEnsemble \<Rightarrow> pyerror + ('p, 'f, 'x) KatsEnsemble" where
  "fit env self =
     (let is_seasonal = seasonality_detector env (data self);
          self1 = self\<lparr>seasonality := Some is_seasonal\<rparr>
      in
        if is_seasonal \<and> param_seasonality_length (params self) = None then
          Inl (ValueError ''The given time series contains seasonality'')
        else
          let auto_backtesting = (param_aggregation (params self) \<noteq> ''median'');
              bound = (param_fitExecutor (params self) = None)
          in
            if is_seasonal then
              (case decomposition_method self1 of
                 None \<Rightarrow> Inl (AttributeError ''decomposition_method'')
               | Some dmethod \<Rightarrow>
                   let (sea, desea) = deseasonalize env (data self1) dmethod;
                       self2 = self1\<lparr>sea_data := Some sea, desea_data := Some desea,
                                     ensemble_model_params :=
                                       Some (given_models (param_models (params self)))\<rparr>
                   in
                     if \<not> bound then Inl (UnboundLocalError ''fitExecutor'')
                     else
                       (case fitExecutor env self2 desea
                               (given_models (param_models (params self))) auto_backtesting of
                          Inl e \<Rightarrow> Inl e
                        | Inr (fitted_ms, ws) \<Rightarrow>
                            Inr (self2\<lparr>fitted := Some fitted_ms, weights := ws\<rparr>)))
            else
              (let self2 = self1\<lparr>ensemble_model_params := Some (param_models (params self))\<rparr>
               in
                 if \<not> bound then Inl (UnboundLocalError ''fitExecutor'')
                 else
                   (case fitExecutor env self2 (data self2)
                           (param_models (params self)) auto_backtesting of
                      Inl e \<Rightarrow> Inl e
                    | Inr (fitted_ms, ws) \<Rightarrow>
                        Inr (self2\<lparr>fitted := Some fitted_ms, weights := ws\<rparr>))))"

subsection \<open>\<open>aggregate\<close>\<close>

text \<open>
  A table is what \<open>pd.concat([...], axis=1)\<close> builds for one of the columns \<open>fcst\<close>,
  \<open>fcst_lower\<close>, \<open>fcst_upper\<close>: one column for each model, under the model's key. Each
  part has been given the index \<open>0, 1, ...\<close> by \<open>reset_index(drop=True)\<close>, so the table has
  as many rows as the longest part and a shorter part is filled with not-a-number.
  \<open>x[col]\<close> raises \<open>KeyError\<close> on a frame without the column, and \<open>pd.concat\<close> refuses an
  empty list.
\<close>

type_synonym table = "(string \<times> cell list) list"

fun collect :: "string \<Rightarrow> frame list \<Rightarrow> pyerror + cell list list" where
  "collect col [] = Inr []"
| "collect col (x # rest) =
     (case map_of (columns x) col of
        None \<Rightarrow> Inl (KeyError col)
      | Some v \<Rightarrow>
          (case collect col rest of
             Inl e \<Rightarrow> Inl e
           | Inr vs \<Rightarrow> Inr (v # vs)))"

definition max_length :: "'a list list \<Rightarrow> nat" where
  "max_length xss = foldr max (map length xss) 0"

definition pad :: "nat \<Rightarrow> cell list \<Rightarrow> cell list" where
  "pad n v = v @ replicate (n - length v) None"

definition concat_columns :: "string \<Rightarrow> (string \<times> frame) list \<Rightarrow> pyerror + table" where
  "concat_columns col prd =
     (case collect col (map snd prd) of
        Inl e \<Rightarrow> Inl e
      | Inr vs \<Rightarrow>
          if vs = [] then Inl (ValueError ''No objects to concatenate'')
          else Inr (zip (map fst prd) (map (pad (max_length vs)) vs)))"

text \<open>The dictionary \<open>fcsts\<close>, with its three keys.\<close>

record fcsts =
  fcst :: table
  fcst_lower :: table
  fcst_upper :: table

text \<open>\<open>clean_dummy_CI\<close>: \<open>fillna(0)\<close> or \<open>replace(0, np.nan)\<close> on the two tables of bounds.\<close>

definition fillna :: "real \<Rightarrow> table \<Rightarrow> table" where
  "fillna a t = map (\<lambda>(k, v). (k, map (\<lambda>c. case c of None \<Rightarrow> Some a | Some b \<Rightarrow> Some b) v)) t"

definition replace_with_nan :: "real \<Rightarrow> table \<Rightarrow> table" where
  "replace_with_nan a t = map (\<lambda>(k, v). (k, map (\<lambda>c. if c = Some a then None else c) v)) t"

definition clean_dummy_CI :: "fcsts \<Rightarrow> bool \<Rightarrow> fcsts" where
  "clean_dummy_CI fs use_zero =
     (if use_zero then
        fs\<lparr>fcst_lower := fillna 0 (fcst_lower fs), fcst_upper := fillna 0 (fcst_upper fs)\<rparr>
      else
        fs\<lparr>fcst_lower := replace_with_nan 0 (fcst_lower fs),
           fcst_upper := replace_with_nan 0 (fcst_upper fs)\<rparr>)"

text \<open>
  The rows of a table, and \<open>median(axis=1)\<close>: the median of the values of a row that are
  not not-a-number, which is not-a-number when there is none.
\<close>

definition nrows :: "table \<Rightarrow> nat" where
  "nrows t = max_length (map snd t)"

definition row :: "table \<Rightarrow> nat \<Rightarrow> cell list" where
  "row t i = map (\<lambda>(k, v). if i < length v then v ! i else None) t"

definition present :: "cell list \<Rightarrow> real list" where
  "present cs = concat (map (\<lambda>c. case c of None \<Rightarrow> [] | Some a \<Rightarrow> [a]) cs)"

definition median :: "real list \<Rightarrow> cell" where
  "median xs =
     (let s = sort xs; n = length s in
      if n = 0 then None
      else if odd n then Some (s ! (n div 2))
      else Some ((s ! (n div 2 - 1) + s ! (n div 2)) / 2))"

definition median_rows :: "table \<Rightarrow> cell list" where
  "median_rows t = map (\<lambda>i. median (present (row t i))) [0..<nrows t]"

text \<open>
  \<open>isnull().values.any()\<close>, and \<open>table.dot(w)\<close> for a one-dimensional array \<open>w\<close>: the
  array must have one entry for each column of the table; a row with a not-a-number gives
  not-a-number.
\<close>

definition any_null :: "table \<Rightarrow> bool" where
  "any_null t = list_ex (\<lambda>(k, v). list_ex (\<lambda>c. c = None) v) t"

definition dot_row :: "cell list \<Rightarrow> real list \<Rightarrow> cell" where
  "dot_row cs w = foldl (cell_op (+)) (Some 0) (map2 (\<lambda>c a. cell_op (*) c (Some a)) cs w)"

definition dot :: "table \<Rightarrow> real list \<Rightarrow> pyerror + cell list" where
  "dot t w =
     (if length t \<noteq> length w then Inl (ValueError ''Dot product shape mismatch'')
      else Inr (map (\<lambda>i. dot_row (row t i) w) [0..<nrows t]))"

text \<open>
  The frame \<open>pd.DataFrame({"time": self.dates, "fcst": ..., "fcst_lower": ...,
  "fcst_upper": ...})\<close>: the three computed columns carry the index \<open>0, 1, ...\<close> and the
  dates must be as many.
\<close>

definition result_frame :: "cell list \<Rightarrow> cell list \<Rightarrow> cell list \<Rightarrow> cell list \<Rightarrow> pyerror + frame" where
  "result_frame dates f lo up =
     (if length dates \<noteq> length f then Inl (ValueError ''array length does not match index length'')
      else Inr \<lparr>index = map (\<lambda>i. Some (real i)) [0..<length f],
                columns = [(''time'', dates), (''fcst'', f), (''fcst_lower'', lo),
                           (''fcst_upper'', up)]\<rparr>)"

text \<open>
  \<open>aggregate\<close>. The future dates \<open>self.dates\<close>, which \<open>pd.date_range\<close> computes from the last
  observed date, \<open>self.steps\<close> and the frequency, are the argument \<open>dates\<close>. The result is
  the frame the method returns (and stores in \<open>self.fcst_df\<close>).
\<close>

definition aggregate :: "('p, 'f, 'x) KatsEnsemble \<Rightarrow> cell list \<Rightarrow> pyerror + frame" where
  "aggregate self dates =
     (case predicted self of
        None \<Rightarrow> Inl (AttributeError ''predicted'')
      | Some prd \<Rightarrow>
     (case concat_columns ''fcst'' prd of
        Inl e \<Rightarrow> Inl e
      | Inr tf \<Rightarrow>
     (case concat_columns ''fcst_lower'' prd of
        Inl e \<Rightarrow> Inl e
      | Inr tlo \<Rightarrow>
     (case concat_columns ''fcst_upper'' prd of
        Inl e \<Rightarrow> Inl e
      | Inr tup \<Rightarrow>
          if lower (param_aggregation (params self)) = ''median'' then
            (let fs = clean_dummy_CI \<lparr>fcst = tf, fcst_lower = tlo, fcst_upper = tup\<rparr> False
             in result_frame dates (median_rows (fcst fs)) (median_rows (fcst_lower fs))
                  (median_rows (fcst_upper fs)))
          else if any_null tlo \<or> any_null tup then
            Inl (ValueError ''Conf. interval contains NaN, please check individual model'')
          else
            (case weights self of
               None \<Rightarrow> Inl (AttributeError ''values'')
             | Some ws \<Rightarrow>
            (case dot tf (map snd ws) of
               Inl e \<Rightarrow> Inl e
             | Inr f \<Rightarrow>
            (case dot tlo (map snd ws) of
               Inl e \<Rightarrow> Inl e
             | Inr lo \<Rightarrow>
            (case dot tup (map snd ws) of
               Inl e \<Rightarrow> Inl e
             | Inr up \<Rightarrow> result_frame dates f lo up))))))))"

section \<open>The formulas of the specification\<close>

text \<open>
  The weight the specification gives a model with backtest error \<open>e\<close> in a batch with the
  errors \<open>errors\<close>: \<open>(1 / (e + \<epsilon>))\<close> divided by the sum over all models \<open>k\<close> of
  \<open>1 / (error[k] + \<epsilon>)\<close>.
\<close>

definition claimed_weight :: "(string \<times> real) list \<Rightarrow> real \<Rightarrow> real" where
  "claimed_weight errors e =
     (1 / (e + float_epsilon)) / (\<Sum>(k, e') \<leftarrow> errors. 1 / (e' + float_epsilon))"

definition claimed_weights :: "(string \<times> real) list \<Rightarrow> (string \<times> real) list" where
  "claimed_weights errors = map (\<lambda>(m, e). (m, claimed_weight errors e)) errors"

text \<open>
  The forecast of one model for a horizon of \<open>n\<close> steps, as the contract of \<open>predict\<close>
  gives it: \<open>n\<close> rows, a column \<open>fcst\<close>, and no other columns than \<open>time\<close>, \<open>fcst\<close>,
  \<open>fcst_lower\<close> and \<open>fcst_upper\<close>. It carries bounds when it has both bound columns.
\<close>

definition forecast_frame :: "nat \<Rightarrow> frame \<Rightarrow> bool" where
  "forecast_frame n df \<longleftrightarrow>
     length (index df) = n
     \<and> list_all (\<lambda>(c, v). length v = n) (columns df)
     \<and> distinct (map fst (columns df))
     \<and> ''fcst'' \<in> set (map fst (columns df))
     \<and> set (map fst (columns df)) \<subseteq> {''time'', ''fcst'', ''fcst_lower'', ''fcst_upper''}"

definition has_bounds :: "frame \<Rightarrow> bool" where
  "has_bounds df \<longleftrightarrow> has_column ''fcst_lower'' df \<and> has_column ''fcst_upper'' df"

text \<open>
  The seasonal unit of the specification: the last \<open>p\<close> values of the seasonal component,
  tiled \<open>1 + floor(s / p)\<close> times and truncated to \<open>s\<close> values.
\<close>

definition claimed_unit :: "cell list \<Rightarrow> int \<Rightarrow> int \<Rightarrow> cell list" where
  "claimed_unit seasonal p s =
     take (nat s) (concat (replicate (nat (1 + s div p)) (drop (length seasonal - nat p) seasonal)))"

text \<open>
  The reseasonalized forecast of one model: with bounds, every column combined elementwise
  with the unit (the column \<open>time\<close> having become the index); without, the point forecast
  combined with the unit and both bounds filled with a constant.
\<close>

definition claimed_frame :: "(real \<Rightarrow> real \<Rightarrow> real) \<Rightarrow> cell \<Rightarrow> cell list \<Rightarrow> frame \<Rightarrow> frame" where
  "claimed_frame f fill arr df =
     (if has_bounds df then
        \<lparr>index = (if has_column ''time'' df then the (map_of (columns df) ''time'') else index df),
         columns = map (\<lambda>(c, v). (c, map2 (cell_op f) v arr))
                     (filter (\<lambda>(c, v). c \<noteq> ''time'') (columns df))\<rparr>
      else
        \<lparr>index = index df,
         columns = [(''fcst'', map2 (cell_op f) (the (map_of (columns df) ''fcst'')) arr),
                    (''fcst_lower'', replicate (length arr) fill),
                    (''fcst_upper'', replicate (length arr) fill)]\<rparr>)"

text \<open>
  For the aggregator: the column \<open>c\<close> of a frame that has it; a batch of forecasts of \<open>n\<close>
  rows that is not empty and in which every model has the columns \<open>fcst\<close>, \<open>fcst_lower\<close>
  and \<open>fcst_upper\<close>; the table of one column over such a batch; the replacement of a zero
  by not-a-number; and the dot product of the per-model values of a row with the weight
  vector, which is not-a-number as soon as one of the values is.
\<close>

definition column :: "string \<Rightarrow> frame \<Rightarrow> cell list" where
  "column c df = the (map_of (columns df) c)"

definition bounded_forecasts :: "nat \<Rightarrow> (string \<times> frame) list \<Rightarrow> bool" where
  "bounded_forecasts n prd \<longleftrightarrow>
     prd \<noteq> []
     \<and> list_all (\<lambda>(k, df).
           list_all (\<lambda>c. case map_of (columns df) c of None \<Rightarrow> False | Some v \<Rightarrow> length v = n)
             [''fcst'', ''fcst_lower'', ''fcst_upper'']) prd"

definition stacked :: "string \<Rightarrow> (string \<times> frame) list \<Rightarrow> table" where
  "stacked c prd = map (\<lambda>(k, df). (k, column c df)) prd"

definition zero_to_nan :: "cell \<Rightarrow> cell" where
  "zero_to_nan c = (if c = Some 0 then None else c)"

definition claimed_dot :: "cell list \<Rightarrow> real list \<Rightarrow> cell" where
  "claimed_dot cs w =
     (if None \<in> set cs then None else Some (\<Sum>(c, a) \<leftarrow> zip (map the cs) w. c * a))"

section \<open>Example inputs\<close>

text \<open>
  Collaborators on a machine with eight processors, whose backtest error is 0 for an
  ARIMA model and 1 for any other, and whose detector finds every series seasonal.
\<close>

definition env0 :: "(unit, unit) collaborators" where
  "env0 = \<lparr>cpu_count = 8, seasonality_detector = (\<lambda>d. True),
           deseasonalize = (\<lambda>d m. (d, d)), fit_single = (\<lambda>d c p. ()),
           predict_fitted = (\<lambda>f n. \<lparr>index = [], columns = []\<rparr>),
           backtester_single = (\<lambda>d p c e. if c = ARIMAModel then 0 else 1)\<rparr>"

definition no_data :: series where
  "no_data = \<lparr>ts_time = [], ts_value = []\<rparr>"

definition arima_theta :: "unit BaseModelParams list" where
  "arima_theta =
     [\<lparr>model_name = ''arima'', model_params = ()\<rparr>,
      \<lparr>model_name = ''theta'', model_params = ()\<rparr>]"

definition four_points :: series where
  "four_points = \<lparr>ts_time = [Some 0, Some 1, Some 2, Some 3],
                  ts_value = [Some 5, Some 6, Some 5, Some 6]\<rparr>"

text \<open>
  A configuration whose key \<open>fitExecutor\<close> is present with the value \<open>None\<close> and that
  sets no seasonality length, and the object its construction gives on a series of four
  points.
\<close>

definition params0 :: "(unit, unit) Params" where
  "params0 = \<lparr>param_models = arima_theta, param_aggregation = ''median'',
              param_decomposition_method = ''additive'', param_seasonality_length = None,
              param_fitExecutor = Some None, param_forecastExecutor = None\<rparr>"

definition ensemble0 :: "(unit, unit, unit) KatsEnsemble" where
  "ensemble0 =
     \<lparr>data = four_points, params = params0, decomposition_method = Some ''additive'',
      custom_fitExecutor = None, custom_forecastExecutor = None, seasonality = None,
      sea_data = None, desea_data = None, ensemble_model_params = None, fitted = None,
      weights = None, steps = None, predicted = None\<rparr>"

text \<open>
  A configuration of two models of the families \<open>arima\<close> and \<open>theta\<close>, the second under
  the name \<open>theta_2\<close>, with a seasonality length and no custom executor, and the object its
  construction gives on the series of four points.
\<close>

definition arima_theta_2 :: "unit BaseModelParams list" where
  "arima_theta_2 =
     [\<lparr>model_name = ''arima'', model_params = ()\<rparr>,
      \<lparr>model_name = ''theta_2'', model_params = ()\<rparr>]"

definition params2 :: "(unit, unit) Params" where
  "params2 = \<lparr>param_models = arima_theta_2, param_aggregation = ''median'',
              param_decomposition_method = ''additive'', param_seasonality_length = Some 2,
              param_fitExecutor = None, param_forecastExecutor = None\<rparr>"

definition ensemble2 :: "(unit, unit, unit) KatsEnsemble" where
  "ensemble2 =
     \<lparr>data = four_points, params = params2, decomposition_method = Some ''additive'',
      custom_fitExecutor = None, custom_forecastExecutor = None, seasonality = None,
      sea_data = None, desea_data = None, ensemble_model_params = None, fitted = None,
      weights = None, steps = None, predicted = None\<rparr>"

text \<open>
  A configuration of two families, of which \<open>theta\<close> has a seasonal variant, with a
  seasonality length and no custom executor, and the object its construction gives on a
  series of four points.
\<close>

definition params1 :: "(unit, unit) Params" where
  "params1 = \<lparr>param_models = arima_theta, param_aggregation = ''weightedavg'',
              param_decomposition_method = ''additive'', param_seasonality_length = Some 2,
              param_fitExecutor = None, param_forecastExecutor = None\<rparr>"

definition ensemble1 :: "(unit, unit, unit) KatsEnsemble" where
  "ensemble1 =
     \<lparr>data = four_points, params = params1, decomposition_method = Some ''additive'',
      custom_fitExecutor = None, custom_forecastExecutor = None, seasonality = None,
      sea_data = None, desea_data = None, ensemble_model_params = None, fitted = None,
      weights = None, steps = None, predicted = None\<rparr>"

text \<open>
  Two forecasts for three steps: one with native bounds, one with a point forecast only.
\<close>

definition two_forecasts :: "(string \<times> frame) list" where
  "two_forecasts =
     [(''arima'',
       \<lparr>index = [Some 4, Some 5, Some 6],
        columns = [(''fcst'', [Some 10, Some 20, Some 30]),
                   (''fcst_lower'', [Some 9, Some 19, Some 29]),
                   (''fcst_upper'', [Some 11, Some 21, Some 31])]\<rparr>),
      (''linear'',
       \<lparr>index = [Some 4, Some 5, Some 6],
        columns = [(''fcst'', [Some 1, Some 2, Some 3])]\<rparr>)]"

text \<open>
  Three forecasts of two rows, of which \<open>linear\<close> has not-a-number bounds throughout and
  \<open>arima\<close> a zero lower bound in the second row; two forecasts of one row with finite
  bounds; and objects that hold them as their predictions, under \<open>median\<close> and under
  \<open>weightedavg\<close> with weights.
\<close>

definition three_forecasts :: "(string \<times> frame) list" where
  "three_forecasts =
     [(''arima'',
       \<lparr>index = [Some 4, Some 5],
        columns = [(''fcst'', [Some 10, Some 20]),
                   (''fcst_lower'', [Some 8, Some 0]),
                   (''fcst_upper'', [Some 12, Some 22])]\<rparr>),
      (''linear'',
       \<lparr>index = [Some 4, Some 5],
        columns = [(''fcst'', [Some 40, Some 50]),
                   (''fcst_lower'', [None, None]),
                   (''fcst_upper'', [None, None])]\<rparr>),
      (''theta'',
       \<lparr>index = [Some 4, Some 5],
        columns = [(''fcst'', [Some 30, Some 60]),
                   (''fcst_lower'', [Some 20, Some 40]),
                   (''fcst_upper'', [Some 32, Some 62])]\<rparr>)]"

definition two_bounded :: "(string \<times> frame) list" where
  "two_bounded =
     [(''A'',
       \<lparr>index = [Some 4],
        columns = [(''fcst'', [Some 10]), (''fcst_lower'', [Some 8]), (''fcst_upper'', [Some 12])]\<rparr>),
      (''B'',
       \<lparr>index = [Some 4],
        columns = [(''fcst'', [Some 20]), (''fcst_lower'', [Some 18]), (''fcst_upper'', [Some 22])]\<rparr>)]"

definition median_ensemble :: "(unit, unit, unit) KatsEnsemble" where
  "median_ensemble = ensemble0\<lparr>steps := Some 2, predicted := Some three_forecasts\<rparr>"

definition weighted_ensemble :: "(unit, unit, unit) KatsEnsemble" where
  "weighted_ensemble =
     ensemble1\<lparr>steps := Some 1, predicted := Some two_bounded,
               weights := Some [(''A'', 3 / 10), (''B'', 7 / 10)]\<rparr>"

definition weighted_nan_ensemble :: "(unit, unit, unit) KatsEnsemble" where
  "weighted_nan_ensemble =
     ensemble1\<lparr>steps := Some 2, predicted := Some three_forecasts,
               weights := Some [(''arima'', 1 / 2), (''linear'', 1 / 4), (''theta'', 1 / 4)]\<rparr>"

section \<open>Properties\<close>

subsection \<open>The pool\<close>

lemma num_process_eq: "num_process cpu = min 7 ((cpu - 1) div 2)"
  by (simp add: num_process_def MODELS_def)

lemma num_process_ge_one: "1 \<le> num_process cpu \<longleftrightarrow> 3 \<le> cpu"
  unfolding num_process_eq by presburger

lemma Pool_num_process:
  "Pool (num_process cpu) =
     (if 3 \<le> cpu then Inr (nat (num_process cpu))
      else Inl (RemoteError ''Number of processes must be at least 1''))"
  using num_process_ge_one [of cpu] by (auto simp add: Pool_def)

subsection \<open>Weights\<close>

lemma float_epsilon_pos: "0 < float_epsilon"
  by (simp add: float_epsilon_def)

lemma original_weights_nonneg:
  assumes "\<forall>(m, e) \<in> set errors. 0 \<le> e"
  shows "original_weights errors = Inr (map (\<lambda>(m, e). (m, 1 / (e + float_epsilon))) errors)"
proof -
  have "\<not> list_ex (\<lambda>(model, err). err + float_epsilon = 0) errors"
    using assms float_epsilon_pos by (fastforce simp: list_ex_iff)
  then show ?thesis by (simp add: original_weights_def)
qed

lemma recip_sum_pos:
  assumes "\<forall>(m, e) \<in> set errors. 0 \<le> e" "errors \<noteq> []"
  shows "0 < (\<Sum>(k, e) \<leftarrow> errors. 1 / (e + float_epsilon))"
  using assms
proof (induction errors)
  case Nil then show ?case by simp
next
  case (Cons x xs)
  obtain m e where x: "x = (m, e)" by (cases x)
  with Cons.prems have "0 \<le> e" by simp
  with float_epsilon_pos have p: "0 < 1 / (e + float_epsilon)" by simp
  show ?case
  proof (cases "xs = []")
    case True with p x show ?thesis by simp
  next
    case False
    with Cons have "0 < (\<Sum>(k, e) \<leftarrow> xs. 1 / (e + float_epsilon))" by simp
    with p have "0 < 1 / (e + float_epsilon) + (\<Sum>(k, e) \<leftarrow> xs. 1 / (e + float_epsilon))"
      by (rule add_pos_pos)
    with x show ?thesis by simp
  qed
qed

lemma snd_original:
  "map snd (map (\<lambda>(m, e). (m, 1 / (e + float_epsilon))) errors)
     = map (\<lambda>(k, e). 1 / (e + float_epsilon)) errors"
  by (induction errors) auto

lemma weights_of_errors_nonneg:
  assumes "\<forall>(m, e) \<in> set errors. 0 \<le> e"
  shows "weights_of_errors errors = Inr (claimed_weights errors)"
proof -
  let ?ow = "map (\<lambda>(m, e). (m, 1 / (e + float_epsilon))) errors"
  have s: "sum_list (map snd ?ow) = (\<Sum>(k, e') \<leftarrow> errors. 1 / (e' + float_epsilon))"
    by (simp only: snd_original)
  have nz: "\<not> (?ow \<noteq> [] \<and> sum_list (map snd ?ow) = 0)"
  proof (cases "errors = []")
    case True then show ?thesis by simp
  next
    case False
    from recip_sum_pos [OF assms False] show ?thesis by (simp only: s) simp
  qed
  have "normalised_weights ?ow =
          Inr (map (\<lambda>(model, err). (model, err / sum_list (map snd ?ow))) ?ow)"
    using nz unfolding normalised_weights_def by (simp only: if_False)
  also have "map (\<lambda>(model, err). (model, err / sum_list (map snd ?ow))) ?ow =
     claimed_weights errors"
    unfolding claimed_weights_def claimed_weight_def
    by (simp only: s) (simp add: case_prod_unfold comp_def)
  finally show ?thesis
    by (simp add: weights_of_errors_def original_weights_nonneg [OF assms])
qed

lemma map_of_claimed_weights:
  "map_of (claimed_weights errors) m = map_option (claimed_weight errors) (map_of errors m)"
proof -
  have "map_of (map (\<lambda>(m, e). (m, f e)) xs) k = map_option f (map_of xs k)"
    for f :: "real \<Rightarrow> real" and xs :: "(string \<times> real) list" and k
    by (induction xs) auto
  then show ?thesis by (simp add: claimed_weights_def)
qed

lemma backtesters_arima_theta:
  "backtesters env0 no_data ''mape'' arima_theta [] = Inr [(''arima'', 0), (''theta'', 1)]"
  by (simp add: env0_def arima_theta_def model_class_of_def MODELS_def lower_def
      lower_char_def split_first_def)

text \<open>
  C1. Backtest errors are values of an error metric (the mean absolute percentage error)
  and so are not negative. For every mapping \<open>errors\<close> of such values, the weights that the
  last lines of \<open>forecast\<close> compute under \<open>weightedavg\<close>, and the weights that
  \<open>_backtester_all\<close> returns when its backtests gave \<open>errors\<close>, are the mapping that gives
  each model \<open>m\<close> with error \<open>e\<close> the value \<open>(1 / (e + \<epsilon>))\<close> divided by the sum over all
  models \<open>k\<close> of \<open>1 / (error[k] + \<epsilon>)\<close>, where \<open>\<epsilon>\<close> is the machine epsilon.
\<close>

theorem weights_formula:
  assumes "\<forall>(m, e) \<in> set errors. 0 \<le> e"
  shows "forecast_weights ''weightedavg'' errors = Inr (Some (claimed_weights errors))
       \<and> (3 \<le> cpu_count env \<and> backtesters env d em ms [] = Inr errors
            \<longrightarrow> backtester_all env d ms em = Inr (claimed_weights errors, errors))
       \<and> (\<forall>m e. map_of errors m = Some e
            \<longrightarrow> map_of (claimed_weights errors) m =
                  Some ((1 / (e + float_epsilon)) /
                        (\<Sum>(k, e') \<leftarrow> errors. 1 / (e' + float_epsilon))))"
proof (intro conjI impI allI)
  show "forecast_weights ''weightedavg'' errors = Inr (Some (claimed_weights errors))"
    by (simp add: forecast_weights_def weights_of_errors_nonneg [OF assms])
next
  assume a: "3 \<le> cpu_count env \<and> backtesters env d em ms [] = Inr errors"
  then show "backtester_all env d ms em = Inr (claimed_weights errors, errors)"
    by (simp add: backtester_all_def backtester_all_pool_def Pool_num_process weights_of_errors_nonneg [OF assms])
next
  fix m e assume "map_of errors m = Some e"
  then show "map_of (claimed_weights errors) m =
                  Some ((1 / (e + float_epsilon)) /
                        (\<Sum>(k, e') \<leftarrow> errors. 1 / (e' + float_epsilon)))"
    by (simp add: map_of_claimed_weights claimed_weight_def)
qed

theorem weights_formula_witness:
  "backtester_all env0 no_data arima_theta ''mape''
     = Inr ([(''arima'', (1 / (0 + float_epsilon)) /
                         (1 / (0 + float_epsilon) + 1 / (1 + float_epsilon))),
             (''theta'', (1 / (1 + float_epsilon)) /
                         (1 / (0 + float_epsilon) + 1 / (1 + float_epsilon)))],
            [(''arima'', 0), (''theta'', 1)])
   \<and> forecast_weights ''weightedavg'' [(''arima'', 0), (''theta'', 1)] =
       Inr (Some [(''arima'', 4503599627370497 / 4503599627370498),
                  (''theta'', 1 / 4503599627370498)])"
proof -
  have h: "\<forall>(m, e) \<in> set [(''arima'', 0::real), (''theta'', 1)]. 0 \<le> e" by simp
  have c: "3 \<le> cpu_count env0" by (simp add: env0_def)
  show ?thesis
    using weights_formula [OF h, of env0 no_data "''mape''" arima_theta]
      backtesters_arima_theta c
    by (simp add: claimed_weights_def claimed_weight_def float_epsilon_def)
qed

lemma sum_list_divide:
  "sum_list (map (\<lambda>x. f x / c) xs) = sum_list (map f xs) / (c::real)"
  by (induction xs) (simp_all add: add_divide_distrib)

lemma claimed_weights_sum:
  assumes "\<forall>(m, e) \<in> set errors. 0 \<le> e" "errors \<noteq> []"
  shows "sum_list (map snd (claimed_weights errors)) = 1"
proof -
  let ?S = "\<Sum>(k, e') \<leftarrow> errors. 1 / (e' + float_epsilon)"
  have "map snd (claimed_weights errors) = map (\<lambda>x. (case x of (k, e) \<Rightarrow> 1 / (e + float_epsilon)) / ?S) errors"
    by (simp add: claimed_weights_def claimed_weight_def case_prod_unfold comp_def)
  then have "sum_list (map snd (claimed_weights errors)) = ?S / ?S"
    by (simp only: sum_list_divide)
  with recip_sum_pos [OF assms] show ?thesis by simp
qed

lemma claimed_weight_pos:
  assumes "\<forall>(m, e) \<in> set errors. 0 \<le> e" "errors \<noteq> []" "0 \<le> e"
  shows "0 < claimed_weight errors e"
proof -
  from assms(3) float_epsilon_pos have "0 < 1 / (e + float_epsilon)" by simp
  from this recip_sum_pos [OF assms(1,2)] show ?thesis
    unfolding claimed_weight_def by (rule divide_pos_pos)
qed

lemma claimed_weight_antimono:
  assumes "\<forall>(m, e) \<in> set errors. 0 \<le> e" "errors \<noteq> []" "0 \<le> ea" "ea < eb"
  shows "claimed_weight errors eb < claimed_weight errors ea"
proof -
  from assms(3,4) float_epsilon_pos have "1 / (eb + float_epsilon) < 1 / (ea + float_epsilon)"
    by (simp add: frac_less2)
  from this recip_sum_pos [OF assms(1,2)] show ?thesis
    unfolding claimed_weight_def by (rule divide_strict_right_mono)
qed

lemma update_fresh: "k \<notin> fst ` set al \<Longrightarrow> AList.update k v al = al @ [(k, v)]"
  by (induction al) auto

lemma set_update_subset: "set (AList.update k v al) \<subseteq> insert (k, v) (set al)"
  by (induction al) auto

lemma backtesters_total:
  assumes "\<forall>m \<in> set ms. \<exists>cls. model_class_of (model_name m) = Inr cls"
  shows "\<exists>errs. backtesters env d em ms acc = Inr errs
           \<and> fst ` set errs = fst ` set acc \<union> model_name ` set ms
           \<and> snd ` set errs \<subseteq> snd ` set acc \<union> {e. \<exists>p c. e = backtester_single env d p c em}"
  using assms
proof (induction ms arbitrary: acc)
  case Nil then show ?case by simp
next
  case (Cons a ms)
  then obtain cls where c: "model_class_of (model_name a) = Inr cls" by auto
  let ?acc = "AList.update (model_name a) (backtester_single env d (model_params a) cls em) acc"
  from Cons have "\<forall>m \<in> set ms. \<exists>cls. model_class_of (model_name m) = Inr cls" by simp
  from Cons.IH [OF this, of ?acc] obtain errs where
    r: "backtesters env d em ms ?acc = Inr errs"
    and k: "fst ` set errs = fst ` set ?acc \<union> model_name ` set ms"
    and v: "snd ` set errs \<subseteq> snd ` set ?acc \<union> {e. \<exists>p c. e = backtester_single env d p c em}"
    by blast
  have k': "fst ` set ?acc = insert (model_name a) (fst ` set acc)"
    by (simp add: dom_update)
  have "set ?acc \<subseteq> insert (model_name a, backtester_single env d (model_params a) cls em) (set acc)"
    by (rule set_update_subset)
  then have v': "snd ` set ?acc \<subseteq> snd ` set acc \<union> {e. \<exists>p c. e = backtester_single env d p c em}"
    by force
  from r c have "backtesters env d em (a # ms) acc = Inr errs" by simp
  moreover from k k' have "fst ` set errs = fst ` set acc \<union> model_name ` set (a # ms)" by auto
  moreover from v v' have "snd ` set errs \<subseteq> snd ` set acc \<union> {e. \<exists>p c. e = backtester_single env d p c em}" by blast
  ultimately show ?case by blast
qed

text \<open>
  C2, as amended. On a machine where the pool can be created, for a batch that is not
  empty, whose models are of registered families and whose backtest errors are not
  negative, \<open>_backtester_all\<close> returns weights and errors over the same model names; every
  weight is non-negative, the weights sum to 1, and a model with a strictly lower error
  than another has a strictly higher weight.
\<close>

theorem weights_properties:
  assumes "3 \<le> cpu_count env" and "ms \<noteq> []"
    and "\<forall>m \<in> set ms. \<exists>cls. model_class_of (model_name m) = Inr cls"
    and "\<forall>p c. 0 \<le> backtester_single env d p c em"
  shows "\<exists>ws errors. backtester_all env d ms em = Inr (ws, errors)
           \<and> map fst ws = map fst errors
           \<and> fst ` set errors = model_name ` set ms
           \<and> (\<forall>(m, w) \<in> set ws. 0 \<le> w)
           \<and> sum_list (map snd ws) = 1
           \<and> (\<forall>a b ea eb. map_of errors a = Some ea \<and> map_of errors b = Some eb \<and> ea < eb
                 \<longrightarrow> (\<exists>wa wb. map_of ws a = Some wa \<and> map_of ws b = Some wb \<and> wb < wa))"
proof -
  from backtesters_total [OF assms(3), of env d em "[]"] obtain errors where
    r: "backtesters env d em ms [] = Inr errors"
    and k: "fst ` set errors = model_name ` set ms"
    and v: "snd ` set errors \<subseteq> {e. \<exists>p c. e = backtester_single env d p c em}"
    by auto
  from v assms(4) have nn: "\<forall>(m, e) \<in> set errors. 0 \<le> e" by fastforce
  from k assms(2) have ne: "errors \<noteq> []" by auto
  let ?ws = "claimed_weights errors"
  have 1: "backtester_all env d ms em = Inr (?ws, errors)"
    using r assms(1)
    by (simp add: backtester_all_def backtester_all_pool_def Pool_num_process weights_of_errors_nonneg [OF nn])
  have 2: "map fst ?ws = map fst errors"
    by (simp add: claimed_weights_def case_prod_unfold comp_def)
  have 3: "\<forall>(m, w) \<in> set ?ws. 0 \<le> w"
  proof -
    have "0 \<le> claimed_weight errors e" if "(m, e) \<in> set errors" for m e
      using claimed_weight_pos [OF nn ne, of e] nn that by fastforce
    then show ?thesis by (auto simp: claimed_weights_def)
  qed
  have 4: "sum_list (map snd ?ws) = 1" by (rule claimed_weights_sum [OF nn ne])
  have 5: "\<exists>wa wb. map_of ?ws a = Some wa \<and> map_of ?ws b = Some wb \<and> wb < wa"
    if h: "map_of errors a = Some ea \<and> map_of errors b = Some eb \<and> ea < eb" for a b ea eb
  proof -
    from h have "(a, ea) \<in> set errors" by (auto dest: map_of_SomeD)
    with nn have "0 \<le> ea" by auto
    from claimed_weight_antimono [OF nn ne this] h
    have "claimed_weight errors eb < claimed_weight errors ea" by simp
    with h show ?thesis by (simp add: map_of_claimed_weights)
  qed
  show ?thesis
  proof (intro exI conjI)
    show "backtester_all env d ms em = Inr (?ws, errors)" by (rule 1)
    show "map fst ?ws = map fst errors" by (rule 2)
    show "fst ` set errors = model_name ` set ms" by (rule k)
    show "\<forall>(m, w) \<in> set ?ws. 0 \<le> w" by (rule 3)
    show "sum_list (map snd ?ws) = 1" by (rule 4)
    show "\<forall>a b ea eb. map_of errors a = Some ea \<and> map_of errors b = Some eb \<and> ea < eb
                 \<longrightarrow> (\<exists>wa wb. map_of ?ws a = Some wa \<and> map_of ?ws b = Some wb \<and> wb < wa)"
      using 5 by blast
  qed
qed

theorem weights_properties_witness:
  "\<exists>ws. backtester_all env0 no_data arima_theta ''mape'' = Inr (ws, [(''arima'', 0), (''theta'', 1)])
      \<and> sum_list (map snd ws) = 1
      \<and> (\<exists>wa wb. map_of ws ''arima'' = Some wa \<and> map_of ws ''theta'' = Some wb \<and> wb < wa)"
proof -
  have 1: "3 \<le> cpu_count env0" by (simp add: env0_def)
  have 2: "arima_theta \<noteq> []" by (simp add: arima_theta_def)
  have 3: "\<forall>m \<in> set arima_theta. \<exists>cls. model_class_of (model_name m) = Inr cls"
    by (simp add: arima_theta_def model_class_of_def MODELS_def lower_def lower_char_def
        split_first_def)
  have 4: "\<forall>p c. 0 \<le> backtester_single env0 no_data p c ''mape''" by (simp add: env0_def)
  from weights_properties [OF 1 2 3 4] obtain ws errors where
    r: "backtester_all env0 no_data arima_theta ''mape'' = Inr (ws, errors)"
    and s: "sum_list (map snd ws) = 1"
    and m: "\<forall>a b ea eb. map_of errors a = Some ea \<and> map_of errors b = Some eb \<and> ea < eb
                 \<longrightarrow> (\<exists>wa wb. map_of ws a = Some wa \<and> map_of ws b = Some wb \<and> wb < wa)"
    by blast
  from r have e: "errors = [(''arima'', 0), (''theta'', 1)]"
    unfolding backtester_all_def backtester_all_pool_def Pool_num_process backtesters_arima_theta
    by (simp add: env0_def split: sum.splits)
  have "map_of errors ''arima'' = Some 0 \<and> map_of errors ''theta'' = Some 1 \<and> (0::real) < 1"
    by (simp add: e)
  with m have "\<exists>wa wb. map_of ws ''arima'' = Some wa \<and> map_of ws ''theta'' = Some wb \<and> wb < wa"
    by blast
  with r s e show ?thesis by blast
qed

text \<open>
  The claim as stated, for every weights mapping, fails on the empty batch, which
  \<open>forecast\<close> does hand to the executor when no configured model has a seasonal variant:
  the weights mapping is empty and its values sum to 0.
\<close>

theorem weights_empty_batch:
  "backtester_all env0 no_data [] ''mape'' = Inr ([], [])
   \<and> sum_list (map snd ([] :: (string \<times> real) list)) \<noteq> 1"
  by (simp add: backtester_all_def backtester_all_pool_def Pool_num_process env0_def weights_of_errors_def
      original_weights_def normalised_weights_def)

subsection \<open>The worker pools\<close>

text \<open>
  What the loops of the executors can raise: a \<open>KeyError\<close> for a model of an unknown
  family or a frame without the column \<open>time\<close>, and a division by zero in the weights.
  None of them is the refusal of a pool.
\<close>

lemma model_class_of_error: "model_class_of n = Inl e \<Longrightarrow> \<exists>k. e = KeyError k"
  by (auto simp add: model_class_of_def split: option.splits)

lemma fitted_models_error: "fitted_models env d ms acc = Inl e \<Longrightarrow> \<exists>k. e = KeyError k"
proof (induction ms arbitrary: acc)
  case Nil
  then show ?case by simp
next
  case (Cons a ms)
  show ?case
  proof (cases "model_class_of (model_name a)")
    case (Inl e')
    with Cons.prems have "e = e'" by simp
    with Inl show ?thesis by (auto dest: model_class_of_error)
  next
    case (Inr cls)
    with Cons.prems have "fitted_models env d ms
        (AList.update (model_name a) (fit_single env d cls (model_params a)) acc) = Inl e"
      by simp
    then show ?thesis by (rule Cons.IH)
  qed
qed

lemma backtesters_error: "backtesters env d em ms acc = Inl e \<Longrightarrow> \<exists>k. e = KeyError k"
proof (induction ms arbitrary: acc)
  case Nil
  then show ?case by simp
next
  case (Cons a ms)
  show ?case
  proof (cases "model_class_of (model_name a)")
    case (Inl e')
    with Cons.prems have "e = e'" by simp
    with Inl show ?thesis by (auto dest: model_class_of_error)
  next
    case (Inr cls)
    with Cons.prems have "backtesters env d em ms
        (AList.update (model_name a) (backtester_single env d (model_params a) cls em) acc) = Inl e"
      by simp
    then show ?thesis by (rule Cons.IH)
  qed
qed

lemma weights_of_errors_error: "weights_of_errors errs = Inl e \<Longrightarrow> e = ZeroDivisionError"
  by (auto simp add: weights_of_errors_def original_weights_def normalised_weights_def
      split: sum.splits if_splits)

lemma predicted_frames_error: "predicted_frames env n fs acc = Inl e \<Longrightarrow> \<exists>k. e = KeyError k"
proof (induction fs arbitrary: acc)
  case Nil
  then show ?case by simp
next
  case (Cons a fs)
  obtain name f where a: "a = (name, f)" by (cases a)
  show ?case
  proof (cases "set_index ''time'' (predict_fitted env f n)")
    case (Inl e')
    with Cons.prems a have "e = e'" by simp
    with Inl show ?thesis by (auto simp add: set_index_def split: option.splits)
  next
    case (Inr df)
    with Cons.prems a have "predicted_frames env n fs (AList.update name df acc) = Inl e"
      by simp
    then show ?thesis by (rule Cons.IH)
  qed
qed

lemma backtester_all_refused:
  "backtester_all env d ms em = Inl (RemoteError s)
     \<longleftrightarrow> cpu_count env < 3 \<and> s = ''Number of processes must be at least 1''"
proof (cases "3 \<le> cpu_count env")
  case False
  then show ?thesis
    by (auto simp add: backtester_all_def backtester_all_pool_def Pool_num_process)
next
  case True
  have "backtester_all env d ms em \<noteq> Inl (RemoteError s)"
  proof
    assume r: "backtester_all env d ms em = Inl (RemoteError s)"
    show False
    proof (cases "backtesters env d em ms []")
      case (Inl e)
      with r True have "e = RemoteError s"
        by (simp add: backtester_all_def backtester_all_pool_def Pool_num_process)
      with Inl show False by (auto dest: backtesters_error)
    next
      case (Inr errors)
      show False
      proof (cases "weights_of_errors errors")
        case (Inl e)
        with r True Inr have "e = RemoteError s"
          by (simp add: backtester_all_def backtester_all_pool_def Pool_num_process)
        with Inl show False by (auto dest: weights_of_errors_error)
      next
        case (Inr ws)
        with r True \<open>backtesters env d em ms [] = Inr errors\<close> show False
          by (simp add: backtester_all_def backtester_all_pool_def Pool_num_process)
      qed
    qed
  qed
  with True show ?thesis by simp
qed

lemma backTestExecutor_not_refused:
  assumes "3 \<le> cpu_count env"
  shows "backTestExecutor env self \<noteq> Inl (RemoteError s)"
proof (cases "ensemble_model_params self")
  case None
  then show ?thesis by (simp add: backTestExecutor_def)
next
  case (Some ms)
  from assms have n: "backtester_all env (data self) ms ''mape'' \<noteq> Inl (RemoteError s)"
    by (simp add: backtester_all_refused)
  show ?thesis
  proof (cases "backtester_all env (data self) ms ''mape''")
    case (Inl e)
    with n Some show ?thesis by (simp add: backTestExecutor_def)
  next
    case (Inr r)
    with Some show ?thesis by (simp add: backTestExecutor_def split: prod.splits)
  qed
qed

lemma fitExecutor_refused:
  "fitExecutor env self d ms b = Inl (RemoteError ''Number of processes must be at least 1'')
     \<longleftrightarrow> cpu_count env < 3"
proof (cases "3 \<le> cpu_count env")
  case False
  then show ?thesis by (simp add: fitExecutor_def fitExecutor_pool_def Pool_num_process)
next
  case True
  let ?e = "RemoteError ''Number of processes must be at least 1''"
  have "fitExecutor env self d ms b \<noteq> Inl ?e"
  proof (cases "fitted_models env d ms []")
    case (Inl e)
    then have "\<exists>k. e = KeyError k" by (rule fitted_models_error)
    with Inl True show ?thesis
      by (auto simp add: fitExecutor_def fitExecutor_pool_def Pool_num_process)
  next
    case (Inr fs)
    show ?thesis
    proof (cases b)
      case False
      with Inr True show ?thesis
        by (simp add: fitExecutor_def fitExecutor_pool_def Pool_num_process)
    next
      case b: True
      show ?thesis
      proof (cases "backTestExecutor env self")
        case (Inl e)
        with backTestExecutor_not_refused [OF True, of self] have "e \<noteq> ?e" by auto
        with Inl Inr b True show ?thesis
          by (simp add: fitExecutor_def fitExecutor_pool_def Pool_num_process)
      next
        case (Inr ws)
        with \<open>fitted_models env d ms [] = Inr fs\<close> b True show ?thesis
          by (simp add: fitExecutor_def fitExecutor_pool_def Pool_num_process)
      qed
    qed
  qed
  with True show ?thesis by simp
qed

lemma forecastExecutor_refused:
  "forecastExecutor env self d ms n b
      = Inl (RemoteError ''Number of processes must be at least 1'')
     \<longleftrightarrow> cpu_count env < 3"
proof (cases "3 \<le> cpu_count env")
  case False
  then show ?thesis
    by (simp add: forecastExecutor_def forecastExecutor_pool_def Pool_num_process)
next
  case True
  let ?e = "RemoteError ''Number of processes must be at least 1''"
  have "forecastExecutor env self d ms n b \<noteq> Inl ?e"
  proof (cases "fitted_models env d ms []")
    case (Inl e)
    then have "\<exists>k. e = KeyError k" by (rule fitted_models_error)
    with Inl True show ?thesis
      by (auto simp add: forecastExecutor_def forecastExecutor_pool_def Pool_num_process)
  next
    case fs: (Inr fs)
    show ?thesis
    proof (cases "predicted_frames env n fs []")
      case (Inl e)
      then have "\<exists>k. e = KeyError k" by (rule predicted_frames_error)
      with Inl fs True show ?thesis
        by (auto simp add: forecastExecutor_def forecastExecutor_pool_def Pool_num_process)
    next
      case frames: (Inr frames)
      show ?thesis
      proof (cases b)
        case False
        with fs frames True show ?thesis
          by (simp add: forecastExecutor_def forecastExecutor_pool_def Pool_num_process)
      next
        case b: True
        from True have nr: "backtester_all env (data self) ms ''mape'' \<noteq> Inl ?e"
          by (simp add: backtester_all_refused)
        show ?thesis
        proof (cases "backtester_all env (data self) ms ''mape''")
          case (Inl e)
          with nr fs frames b True show ?thesis
            by (simp add: forecastExecutor_def forecastExecutor_pool_def Pool_num_process)
        next
          case (Inr r)
          with fs frames b True show ?thesis
            by (simp add: forecastExecutor_def forecastExecutor_pool_def Pool_num_process
                split: prod.splits)
        qed
      qed
    qed
  qed
  with True show ?thesis by simp
qed

text \<open>
  C3, as amended. With at least three processors each of the three default executors
  (the fit executor, the forecast executor and the backtest executor) creates its worker
  pool with exactly \<open>min(7, (cpu_count - 1) div 2)\<close> worker processes, seven being the number
  of registered model families. That number is at least 1 exactly when there are at least
  three processors; with one or two it is 0, the creation of the pool is refused, and each
  of the three executors fails with that refusal, which it does in no other case.
\<close>

theorem pool_size:
  "fitExecutor_pool env =
     (if 3 \<le> cpu_count env then Inr (nat (min 7 ((cpu_count env - 1) div 2)))
      else Inl (RemoteError ''Number of processes must be at least 1''))
   \<and> forecastExecutor_pool env =
     (if 3 \<le> cpu_count env then Inr (nat (min 7 ((cpu_count env - 1) div 2)))
      else Inl (RemoteError ''Number of processes must be at least 1''))
   \<and> backtester_all_pool env =
     (if 3 \<le> cpu_count env then Inr (nat (min 7 ((cpu_count env - 1) div 2)))
      else Inl (RemoteError ''Number of processes must be at least 1''))
   \<and> length MODELS = 7
   \<and> (1 \<le> min (int (length MODELS)) ((cpu_count env - 1) div 2) \<longleftrightarrow> 3 \<le> cpu_count env)
   \<and> (fitExecutor env self d ms b
         = Inl (RemoteError ''Number of processes must be at least 1'')
       \<longleftrightarrow> cpu_count env < 3)
   \<and> (forecastExecutor env self d ms n b
         = Inl (RemoteError ''Number of processes must be at least 1'')
       \<longleftrightarrow> cpu_count env < 3)
   \<and> (backtester_all env d ms em
         = Inl (RemoteError ''Number of processes must be at least 1'')
       \<longleftrightarrow> cpu_count env < 3)"
proof (intro conjI)
  show "fitExecutor_pool env =
     (if 3 \<le> cpu_count env then Inr (nat (min 7 ((cpu_count env - 1) div 2)))
      else Inl (RemoteError ''Number of processes must be at least 1''))"
    by (subst fitExecutor_pool_def, subst Pool_num_process, simp add: num_process_eq)
  show "forecastExecutor_pool env =
     (if 3 \<le> cpu_count env then Inr (nat (min 7 ((cpu_count env - 1) div 2)))
      else Inl (RemoteError ''Number of processes must be at least 1''))"
    by (subst forecastExecutor_pool_def, subst Pool_num_process, simp add: num_process_eq)
  show "backtester_all_pool env =
     (if 3 \<le> cpu_count env then Inr (nat (min 7 ((cpu_count env - 1) div 2)))
      else Inl (RemoteError ''Number of processes must be at least 1''))"
    by (subst backtester_all_pool_def, subst Pool_num_process, simp add: num_process_eq)
  show "length MODELS = 7" by (simp add: MODELS_def)
  show "1 \<le> min (int (length MODELS)) ((cpu_count env - 1) div 2) \<longleftrightarrow> 3 \<le> cpu_count env"
    using num_process_ge_one [of "cpu_count env"] by (simp add: num_process_def)
  show "fitExecutor env self d ms b
         = Inl (RemoteError ''Number of processes must be at least 1'')
       \<longleftrightarrow> cpu_count env < 3"
    by (rule fitExecutor_refused)
  show "forecastExecutor env self d ms n b
         = Inl (RemoteError ''Number of processes must be at least 1'')
       \<longleftrightarrow> cpu_count env < 3"
    by (rule forecastExecutor_refused)
  show "backtester_all env d ms em
         = Inl (RemoteError ''Number of processes must be at least 1'')
       \<longleftrightarrow> cpu_count env < 3"
    by (simp add: backtester_all_refused)
qed

theorem pool_size_witness:
  "fitExecutor_pool env0 = Inr 3
   \<and> forecastExecutor_pool (env0\<lparr>cpu_count := 64\<rparr>) = Inr 7
   \<and> backtester_all_pool (env0\<lparr>cpu_count := 3\<rparr>) = Inr 1
   \<and> backtester_all_pool (env0\<lparr>cpu_count := 2\<rparr>)
       = Inl (RemoteError ''Number of processes must be at least 1'')
   \<and> backtester_all (env0\<lparr>cpu_count := 2\<rparr>) four_points arima_theta ''mape''
       = Inl (RemoteError ''Number of processes must be at least 1'')"
proof -
  note a = pool_size [of env0 ensemble0 four_points arima_theta False 0 "''mape''"]
  note b = pool_size [of "env0\<lparr>cpu_count := 64\<rparr>" ensemble0 four_points arima_theta False 0
                         "''mape''"]
  note c = pool_size [of "env0\<lparr>cpu_count := 3\<rparr>" ensemble0 four_points arima_theta False 0
                         "''mape''"]
  note d = pool_size [of "env0\<lparr>cpu_count := 2\<rparr>" ensemble0 four_points arima_theta False 0
                         "''mape''"]
  have 1: "fitExecutor_pool env0 = Inr 3"
    using a [THEN conjunct1] by (simp add: env0_def)
  have 2: "forecastExecutor_pool (env0\<lparr>cpu_count := 64\<rparr>) = Inr 7"
    using b [THEN conjunct2, THEN conjunct1] by simp
  have 3: "backtester_all_pool (env0\<lparr>cpu_count := 3\<rparr>) = Inr 1"
    using c [THEN conjunct2, THEN conjunct2, THEN conjunct1] by simp
  have 4: "backtester_all_pool (env0\<lparr>cpu_count := 2\<rparr>)
             = Inl (RemoteError ''Number of processes must be at least 1'')"
    using d [THEN conjunct2, THEN conjunct2, THEN conjunct1] by simp
  have 5: "backtester_all (env0\<lparr>cpu_count := 2\<rparr>) four_points arima_theta ''mape''
             = Inl (RemoteError ''Number of processes must be at least 1'')"
    using d [THEN conjunct2, THEN conjunct2, THEN conjunct2, THEN conjunct2, THEN conjunct2,
             THEN conjunct2, THEN conjunct2]
    by simp
  from 1 2 3 4 5 show ?thesis by (intro conjI)
qed

text \<open>On a single processor the number of processes is not at least 1.\<close>

theorem pool_size_single_processor: "\<not> 1 \<le> num_process 1"
  by (simp add: num_process_eq)

subsection \<open>Validation at construction\<close>

text \<open>
  C9. Construction infers the frequency, which fails on fewer than three time stamps, and
  then is the validation of the new object. When \<open>seasonality_length\<close> is set and strictly
  greater than half the length of the series, rounded down, construction raises, and
  validation fails with the error of this check whenever the aggregation mode is a
  supported one (an unsupported mode is reported first). When \<open>seasonality_length\<close> is unset
  or at most that bound, this check does not raise, and validation succeeds whenever the
  aggregation mode is supported. Construction runs \<open>pd.infer_freq\<close> and \<open>validate_params\<close>
  only; no model is fitted by it.
\<close>

theorem seasonality_length_validated:
  fixes d :: series and ps :: "('p, 'x) Params"
  defines "made \<equiv> (init d ps :: pyerror + ('p, 'f, 'x) KatsEnsemble)"
  defines "checked \<equiv> (validate_params (new_object d ps) :: pyerror + ('p, 'f, 'x) KatsEnsemble)"
  shows
  "(length (ts_time d) < 3
      \<longrightarrow> made = Inl (ValueError ''Need at least 3 dates to infer frequency''))
   \<and> (3 \<le> length (ts_time d) \<longrightarrow> made = checked)
   \<and> (param_seasonality_length ps = Some m \<and> int (length (ts_time d) div 2) < m
      \<longrightarrow> (\<exists>e. made = Inl e) \<and> (\<exists>e. checked = Inl e)
        \<and> (param_aggregation ps \<in> {''median'', ''weightedavg''}
             \<longrightarrow> checked = Inl (ValueError ''seasonality_length value cannot be larger than'')))
   \<and> (param_seasonality_length ps = None
        \<or> (param_seasonality_length ps = Some m \<and> m \<le> int (length (ts_time d) div 2))
      \<longrightarrow> made \<noteq> Inl (ValueError ''seasonality_length value cannot be larger than'')
        \<and> checked \<noteq> Inl (ValueError ''seasonality_length value cannot be larger than'')
        \<and> (param_aggregation ps \<in> {''median'', ''weightedavg''}
             \<longrightarrow> (\<exists>self. checked = Inr self)))"
  unfolding made_def checked_def
  by (auto simp add: init_def infer_freq_def new_object_def validate_params_def Let_def
      split: option.splits)

theorem seasonality_length_validated_witness:
  "init four_points (params0\<lparr>param_seasonality_length := Some 3\<rparr>)
     = (Inl (ValueError ''seasonality_length value cannot be larger than'')
          :: pyerror + (unit, unit, unit) KatsEnsemble)
   \<and> (\<exists>self :: (unit, unit, unit) KatsEnsemble.
         init four_points (params0\<lparr>param_seasonality_length := Some 2\<rparr>) = Inr self)
   \<and> (\<exists>self :: (unit, unit, unit) KatsEnsemble. init four_points params0 = Inr self)"
  using seasonality_length_validated
          [where 'f = unit, of four_points "params0\<lparr>param_seasonality_length := Some 3\<rparr>" 3]
        seasonality_length_validated
          [where 'f = unit, of four_points "params0\<lparr>param_seasonality_length := Some 2\<rparr>" 2]
        seasonality_length_validated [where 'f = unit, of four_points params0 0]
  by (simp add: params0_def four_points_def)

subsection \<open>\<open>fit\<close> with the key \<open>fitExecutor\<close> present\<close>

lemma init_valid:
  assumes "3 \<le> length (ts_time d)"
    and "param_aggregation ps \<in> {''median'', ''weightedavg''}"
    and "\<forall>m. param_seasonality_length ps = Some m \<longrightarrow> m \<le> int (length (ts_time d) div 2)"
  shows "init d ps =
           Inr ((new_object d ps)
                 \<lparr>decomposition_method :=
                    Some (if param_decomposition_method ps \<in> {''additive'', ''multiplicative''}
                          then param_decomposition_method ps else ''additive''),
                  custom_forecastExecutor :=
                    (case param_forecastExecutor ps of Some (Some f) \<Rightarrow> Some f | _ \<Rightarrow> None),
                  custom_fitExecutor :=
                    (case param_fitExecutor ps of Some (Some f) \<Rightarrow> Some f | _ \<Rightarrow> None)\<rparr>)"
  using assms
  by (auto simp add: init_def infer_freq_def new_object_def validate_params_def Let_def
      split: option.splits)

lemma fit_key_present:
  assumes "param_fitExecutor (params self) = Some v"
    and "\<not> (seasonality_detector env (data self) \<and> param_seasonality_length (params self) = None)"
    and "decomposition_method self = Some dm"
  shows "fit env self = Inl (UnboundLocalError ''fitExecutor'')"
  using assms by (simp add: fit_def Let_def split: prod.splits)

lemma backtester_all_error:
  assumes "backtester_all env d ms em = Inl e"
  shows "(\<exists>s. e = RemoteError s) \<or> (\<exists>k. e = KeyError k) \<or> e = ZeroDivisionError"
proof (cases "backtester_all_pool env")
  case (Inl e')
  with assms have "e = e'" by (simp add: backtester_all_def)
  with Inl show ?thesis
    by (auto simp add: backtester_all_pool_def Pool_def split: if_splits)
next
  case pool: (Inr pool)
  show ?thesis
  proof (cases "backtesters env d em ms []")
    case (Inl e')
    with assms pool have "e = e'" by (simp add: backtester_all_def)
    with Inl show ?thesis by (auto dest: backtesters_error)
  next
    case errs: (Inr errors)
    show ?thesis
    proof (cases "weights_of_errors errors")
      case (Inl e')
      with assms pool errs have "e = e'" by (simp add: backtester_all_def)
      with Inl show ?thesis by (auto dest: weights_of_errors_error)
    next
      case (Inr ws)
      with assms pool errs show ?thesis by (simp add: backtester_all_def)
    qed
  qed
qed

lemma fitExecutor_not_unbound:
  "fitExecutor env self d ms b \<noteq> Inl (UnboundLocalError s)"
proof
  assume r: "fitExecutor env self d ms b = Inl (UnboundLocalError s)"
  show False
  proof (cases "fitExecutor_pool env")
    case (Inl e)
    with r have "e = UnboundLocalError s" by (simp add: fitExecutor_def)
    with Inl show False by (auto simp add: fitExecutor_pool_def Pool_def split: if_splits)
  next
    case pool: (Inr pool)
    show False
    proof (cases "fitted_models env d ms []")
      case (Inl e)
      with r pool have "e = UnboundLocalError s" by (simp add: fitExecutor_def)
      with Inl show False by (auto dest: fitted_models_error)
    next
      case fs: (Inr fs)
      show False
      proof (cases b)
        case False
        with r pool fs show False by (simp add: fitExecutor_def)
      next
        case b: True
        show False
        proof (cases "ensemble_model_params self")
          case None
          with r pool fs b show False by (simp add: fitExecutor_def backTestExecutor_def)
        next
          case (Some bs)
          show False
          proof (cases "backtester_all env (data self) bs ''mape''")
            case (Inl e)
            with r pool fs b Some have "e = UnboundLocalError s"
              by (simp add: fitExecutor_def backTestExecutor_def)
            with backtester_all_error [OF Inl] show False by auto
          next
            case (Inr p)
            with r pool fs b Some show False
              by (simp add: fitExecutor_def backTestExecutor_def split: prod.splits)
          qed
        qed
      qed
    qed
  qed
qed

lemma fit_key_absent:
  assumes "param_fitExecutor (params self) = None"
  shows "fit env self \<noteq> Inl (UnboundLocalError s)"
proof
  assume r: "fit env self = Inl (UnboundLocalError s)"
  with assms show False
    by (auto simp add: fit_def Let_def fitExecutor_not_unbound
        split: if_splits option.splits prod.splits sum.splits)
qed

lemma init_params0: "init four_points params0 = Inr ensemble0"
  by (simp add: init_def infer_freq_def new_object_def validate_params_def params0_def
      ensemble0_def four_points_def Let_def)

text \<open>
  C10. Let \<open>params\<close> map the key \<open>fitExecutor\<close> to \<open>None\<close> and be valid otherwise, on a
  series that construction accepts, and let \<open>fit\<close> pass its seasonality check (the series
  is not found seasonal, or a seasonality length is configured), so that it goes on to the
  executor. Then construction succeeds and leaves the instance attribute unset, and \<open>fit\<close>
  raises \<open>UnboundLocalError\<close> for the local name \<open>fitExecutor\<close>, whatever the collaborators
  are: it reaches no executor and fits no model. With the key absent the same
  configuration is constructed as well and \<open>fit\<close> does not raise that error: the local name
  is bound to the default executor. With the key mapped to a callable, validation sets
  the instance attribute to it.
\<close>

theorem fit_with_fitExecutor_None:
  fixes env :: "('p, 'f) collaborators" and ps :: "('p, 'x) Params"
  assumes "param_fitExecutor ps = Some None"
    and "3 \<le> length (ts_time d)"
    and "param_aggregation ps \<in> {''median'', ''weightedavg''}"
    and "\<forall>m. param_seasonality_length ps = Some m \<longrightarrow> m \<le> int (length (ts_time d) div 2)"
    and "\<not> (seasonality_detector env d \<and> param_seasonality_length ps = None)"
  shows "(\<exists>self. init d ps = Inr self \<and> custom_fitExecutor self = None
            \<and> fit env self = Inl (UnboundLocalError ''fitExecutor''))
       \<and> (\<exists>self. init d (ps\<lparr>param_fitExecutor := None\<rparr>) = Inr self
            \<and> custom_fitExecutor self = None
            \<and> fit env self \<noteq> Inl (UnboundLocalError ''fitExecutor''))
       \<and> (\<exists>self :: ('p, 'f, 'x) KatsEnsemble.
            init d (ps\<lparr>param_fitExecutor := Some (Some f)\<rparr>) = Inr self
            \<and> custom_fitExecutor self = Some f)"
proof (intro conjI)
  let ?made = "\<lambda>q :: ('p, 'x) Params. (new_object d q :: ('p, 'f, 'x) KatsEnsemble)
                 \<lparr>decomposition_method :=
                    Some (if param_decomposition_method q \<in> {''additive'', ''multiplicative''}
                          then param_decomposition_method q else ''additive''),
                  custom_forecastExecutor :=
                    (case param_forecastExecutor q of Some (Some f) \<Rightarrow> Some f | _ \<Rightarrow> None),
                  custom_fitExecutor :=
                    (case param_fitExecutor q of Some (Some f) \<Rightarrow> Some f | _ \<Rightarrow> None)\<rparr>"
  have i: "init d ps = Inr (?made ps)"
    by (rule init_valid [OF assms(2,3,4)])
  have i0: "init d (ps\<lparr>param_fitExecutor := None\<rparr>) = Inr (?made (ps\<lparr>param_fitExecutor := None\<rparr>))"
    by (rule init_valid) (use assms(2,3,4) in simp_all)
  have i1: "init d (ps\<lparr>param_fitExecutor := Some (Some f)\<rparr>)
              = Inr (?made (ps\<lparr>param_fitExecutor := Some (Some f)\<rparr>))"
    by (rule init_valid) (use assms(2,3,4) in simp_all)
  have u: "fit env (?made ps) = Inl (UnboundLocalError ''fitExecutor'')"
    by (rule fit_key_present [where v = None]) (use assms(1,5) in \<open>simp_all add: new_object_def\<close>)
  have n: "fit env (?made (ps\<lparr>param_fitExecutor := None\<rparr>)) \<noteq> Inl (UnboundLocalError ''fitExecutor'')"
    by (rule fit_key_absent) (simp add: new_object_def)
  show "\<exists>self. init d ps = Inr self \<and> custom_fitExecutor self = None
            \<and> fit env self = Inl (UnboundLocalError ''fitExecutor'')"
    using i u assms(1) by (intro exI [of _ "?made ps"] conjI) simp_all
  show "\<exists>self. init d (ps\<lparr>param_fitExecutor := None\<rparr>) = Inr self
            \<and> custom_fitExecutor self = None
            \<and> fit env self \<noteq> Inl (UnboundLocalError ''fitExecutor'')"
    using i0 n by (intro exI [of _ "?made (ps\<lparr>param_fitExecutor := None\<rparr>)"] conjI) simp_all
  show "\<exists>self :: ('p, 'f, 'x) KatsEnsemble.
            init d (ps\<lparr>param_fitExecutor := Some (Some f)\<rparr>) = Inr self
            \<and> custom_fitExecutor self = Some f"
    using i1 by (intro exI [of _ "?made (ps\<lparr>param_fitExecutor := Some (Some f)\<rparr>)"] conjI) simp_all
qed

theorem fit_with_fitExecutor_None_witness:
  "init four_points params0 = Inr ensemble0
   \<and> custom_fitExecutor ensemble0 = None
   \<and> fit (env0\<lparr>seasonality_detector := (\<lambda>d. False)\<rparr>) ensemble0
        = Inl (UnboundLocalError ''fitExecutor'')"
proof -
  have 1: "param_fitExecutor params0 = Some None" by (simp add: params0_def)
  have 2: "3 \<le> length (ts_time four_points)" by (simp add: four_points_def)
  have 3: "param_aggregation params0 \<in> {''median'', ''weightedavg''}" by (simp add: params0_def)
  have 4: "\<forall>m. param_seasonality_length params0 = Some m
             \<longrightarrow> m \<le> int (length (ts_time four_points) div 2)" by (simp add: params0_def)
  have 5: "\<not> (seasonality_detector (env0\<lparr>seasonality_detector := (\<lambda>d. False)\<rparr>) four_points
               \<and> param_seasonality_length params0 = None)" by simp
  from fit_with_fitExecutor_None [OF 1 2 3 4 5, THEN conjunct1]
  obtain self :: "(unit, unit, unit) KatsEnsemble" where "init four_points params0 = Inr self"
    and "custom_fitExecutor self = None"
    and "fit (env0\<lparr>seasonality_detector := (\<lambda>d. False)\<rparr>) self
           = Inl (UnboundLocalError ''fitExecutor'')"
    by (elim exE conjE) (rule that, assumption+)
  then show ?thesis by (simp add: init_params0)
qed

subsection \<open>\<open>fit\<close> on a seasonal series\<close>

lemma split_first_smodel: "split_first (n @ ''_smodel'') = split_first n"
  by (induction n) (simp_all add: split_first_def)

lemma model_class_of_smodel: "model_class_of (n @ ''_smodel'') = model_class_of n"
  by (simp only: model_class_of_def split_first_smodel)

lemma given_models_registered:
  assumes "\<forall>m \<in> set ms. \<exists>cls. model_class_of (model_name m) = Inr cls"
  shows "\<forall>m \<in> set (given_models ms). \<exists>cls. model_class_of (model_name m) = Inr cls"
  using assms by (auto simp add: given_models_def model_class_of_smodel)

lemma fitted_models_total:
  assumes "\<forall>m \<in> set ms. \<exists>cls. model_class_of (model_name m) = Inr cls"
  shows "\<exists>fs. fitted_models env d ms acc = Inr fs
           \<and> fst ` set fs = fst ` set acc \<union> model_name ` set ms
           \<and> (distinct (map fst acc) \<longrightarrow> distinct (map fst fs))
           \<and> (\<forall>(k, v) \<in> set fs. (k, v) \<in> set acc \<or>
                 (\<exists>m \<in> set ms. \<exists>cls. k = model_name m \<and> model_class_of k = Inr cls
                     \<and> v = fit_single env d cls (model_params m)))"
  using assms
proof (induction ms arbitrary: acc)
  case Nil then show ?case by auto
next
  case (Cons a ms)
  then obtain cls where c: "model_class_of (model_name a) = Inr cls" by auto
  let ?v = "fit_single env d cls (model_params a)"
  let ?acc = "AList.update (model_name a) ?v acc"
  from Cons have "\<forall>m \<in> set ms. \<exists>cls. model_class_of (model_name m) = Inr cls" by simp
  from Cons.IH [OF this, of ?acc] obtain fs where
    r: "fitted_models env d ms ?acc = Inr fs"
    and k: "fst ` set fs = fst ` set ?acc \<union> model_name ` set ms"
    and dd: "distinct (map fst ?acc) \<longrightarrow> distinct (map fst fs)"
    and v: "\<forall>(k, v) \<in> set fs. (k, v) \<in> set ?acc \<or>
                 (\<exists>m \<in> set ms. \<exists>cls. k = model_name m \<and> model_class_of k = Inr cls
                     \<and> v = fit_single env d cls (model_params m))"
    by blast
  have k': "fst ` set ?acc = insert (model_name a) (fst ` set acc)"
    by (simp add: dom_update)
  have sub: "set ?acc \<subseteq> insert (model_name a, ?v) (set acc)"
    by (rule set_update_subset)
  have 1: "fitted_models env d (a # ms) acc = Inr fs" using r c by simp
  have 2: "fst ` set fs = fst ` set acc \<union> model_name ` set (a # ms)" using k k' by auto
  have 3: "distinct (map fst acc) \<longrightarrow> distinct (map fst fs)"
    using dd by (simp add: distinct_update)
  have 4: "\<forall>(k, v) \<in> set fs. (k, v) \<in> set acc \<or>
                 (\<exists>m \<in> set (a # ms). \<exists>cls. k = model_name m \<and> model_class_of k = Inr cls
                     \<and> v = fit_single env d cls (model_params m))"
  proof (clarify)
    fix k w assume kw: "(k, w) \<in> set fs" and n: "\<not> (\<exists>m \<in> set (a # ms). \<exists>cls. k = model_name m \<and> model_class_of k = Inr cls
                     \<and> w = fit_single env d cls (model_params m))"
    from v kw have "(k, w) \<in> set ?acc \<or>
                 (\<exists>m \<in> set ms. \<exists>cls. k = model_name m \<and> model_class_of k = Inr cls
                     \<and> w = fit_single env d cls (model_params m))" by auto
    with n have "(k, w) \<in> set ?acc" by auto
    with sub have "(k, w) = (model_name a, ?v) \<or> (k, w) \<in> set acc" by auto
    with n c show "(k, w) \<in> set acc" by auto
  qed
  from 1 2 3 4 show ?case by (intro exI [of _ fs] conjI)
qed

lemma backtester_all_total:
  assumes "3 \<le> cpu_count env"
    and "\<forall>m \<in> set ms. \<exists>cls. model_class_of (model_name m) = Inr cls"
    and "\<forall>p c. 0 \<le> backtester_single env d p c em"
  shows "\<exists>ws errors. backtester_all env d ms em = Inr (ws, errors)"
proof -
  from backtesters_total [OF assms(2), of env d em "[]"] obtain errors where
    r: "backtesters env d em ms [] = Inr errors"
    and v: "snd ` set errors \<subseteq> {e. \<exists>p c. e = backtester_single env d p c em}"
    by auto
  from v assms(3) have nn: "\<forall>(m, e) \<in> set errors. 0 \<le> e" by fastforce
  have "backtester_all env d ms em = Inr (claimed_weights errors, errors)"
    using r assms(1)
    by (simp add: backtester_all_def backtester_all_pool_def Pool_num_process weights_of_errors_nonneg [OF nn])
  then show ?thesis by blast
qed

lemma fitExecutor_total:
  assumes "3 \<le> cpu_count env"
    and "\<forall>m \<in> set ms. \<exists>cls. model_class_of (model_name m) = Inr cls"
    and "ensemble_model_params self = Some bs"
    and "\<forall>m \<in> set bs. \<exists>cls. model_class_of (model_name m) = Inr cls"
    and "\<forall>p c. 0 \<le> backtester_single env (data self) p c ''mape''"
    and "fitted_models env d ms [] = Inr fs"
  shows "\<exists>ws. fitExecutor env self d ms b = Inr (fs, ws)"
proof (cases b)
  case False
  with assms(1,6) show ?thesis by (simp add: fitExecutor_def fitExecutor_pool_def Pool_num_process)
next
  case True
  from backtester_all_total [OF assms(1,4,5)] obtain ws errors where
    "backtester_all env (data self) bs ''mape'' = Inr (ws, errors)" by blast
  with True assms(1,3,6) show ?thesis
    by (simp add: fitExecutor_def fitExecutor_pool_def Pool_num_process backTestExecutor_def)
qed

lemma three_keys:
  assumes "distinct (map fst fs)" and "fst ` set fs = {a, b, c}"
    and "a \<noteq> b" "a \<noteq> c" "b \<noteq> c"
  shows "length fs = 3"
proof -
  have "length fs = length (map fst fs)" by simp
  also have "\<dots> = card (set (map fst fs))" using assms(1) by (simp only: distinct_card)
  also have "set (map fst fs) = {a, b, c}" using assms(2) by simp
  also have "card {a, b, c} = 3" using assms(3-5) by simp
  finally show ?thesis .
qed

text \<open>
  C8, as amended. Let \<open>fit\<close> run with the default executor (no key \<open>fitExecutor\<close>) on a
  series found seasonal, with a seasonality length configured, on a machine where the pool
  can be created, with models of registered families and a backtest metric that is not
  negative. Then \<open>fit\<close> succeeds, and the batch it hands to the executor is every configured
  model followed, for each configured model whose whole lower-cased name is a
  seasonal-capable family (the test of \<open>fit\<close>: \<open>m.model_name.lower() in SMODELS.keys()\<close>),
  by a copy named with the suffix \<open>_smodel\<close>. The fitted artifacts are keyed by exactly
  these names, one for each name, and each was fitted on the deseasonalized data. Hence
  with two configured models of different families, exactly one of them with a name that
  passes the test, there are exactly 3 fitted artifacts.
\<close>

theorem fit_seasonal_batch:
  fixes env :: "('p, 'f) collaborators" and self :: "('p, 'f, 'x) KatsEnsemble"
  defines "ms \<equiv> param_models (params self)"
  defines "capable \<equiv> (\<lambda>m :: 'p BaseModelParams. lower (model_name m) \<in> set (map fst SMODELS))"
  defines "batch \<equiv> ms @ map (\<lambda>m. m\<lparr>model_name := model_name m @ ''_smodel''\<rparr>) (filter capable ms)"
  assumes seasonal: "seasonality_detector env (data self)"
    and period: "param_seasonality_length (params self) = Some period"
    and absent: "param_fitExecutor (params self) = None"
    and dmethod: "decomposition_method self = Some dmethod"
    and cpu: "3 \<le> cpu_count env"
    and registered: "\<forall>m \<in> set ms. \<exists>cls. model_class_of (model_name m) = Inr cls"
    and metric: "\<forall>p c. 0 \<le> backtester_single env (data self) p c ''mape''"
  shows "\<exists>self' fs. fit env self = Inr self' \<and> fitted self' = Some fs
           \<and> ensemble_model_params self' = Some batch
           \<and> distinct (map fst fs)
           \<and> fst ` set fs = model_name ` set ms
                 \<union> (\<lambda>m. model_name m @ ''_smodel'') ` set (filter capable ms)
           \<and> (\<forall>(k, v) \<in> set fs. \<exists>m \<in> set batch. \<exists>cls.
                 k = model_name m \<and> model_class_of k = Inr cls
                 \<and> v = fit_single env (snd (deseasonalize env (data self) dmethod)) cls
                         (model_params m))
           \<and> (\<forall>m1 m2. ms = [m1, m2]
                 \<and> lower (split_first (model_name m1)) \<noteq> lower (split_first (model_name m2))
                 \<and> capable m1 \<noteq> capable m2
                 \<longrightarrow> length fs = 3)"
proof -
  obtain sea desea where ds: "deseasonalize env (data self) dmethod = (sea, desea)"
    by (cases "deseasonalize env (data self) dmethod")
  have gm: "given_models ms = batch"
    by (simp add: given_models_def batch_def capable_def)
  let ?self2 = "self\<lparr>seasonality := Some True, sea_data := Some sea, desea_data := Some desea,
                      ensemble_model_params := Some batch\<rparr>"
  let ?auto = "param_aggregation (params self) \<noteq> ''median''"
  have reg: "\<forall>m \<in> set batch. \<exists>cls. model_class_of (model_name m) = Inr cls"
    using given_models_registered [OF registered] by (simp only: gm)
  from fitted_models_total [OF reg, of env desea "[]"] obtain fs where
    f: "fitted_models env desea batch [] = Inr fs"
    and k: "fst ` set fs = model_name ` set batch"
    and dd: "distinct (map fst fs)"
    and v: "\<forall>(k, v) \<in> set fs. \<exists>m \<in> set batch. \<exists>cls. k = model_name m
               \<and> model_class_of k = Inr cls \<and> v = fit_single env desea cls (model_params m)"
    by auto
  have "\<exists>ws. fitExecutor env ?self2 desea batch ?auto = Inr (fs, ws)"
    by (rule fitExecutor_total [OF cpu reg _ reg _ f]) (simp_all add: metric)
  then obtain ws where ex: "fitExecutor env ?self2 desea batch ?auto = Inr (fs, ws)" ..
  let ?self' = "?self2\<lparr>fitted := Some fs, weights := ws\<rparr>"
  have 1: "fit env self = Inr ?self'"
    using seasonal period absent dmethod ds ex
    by (simp add: fit_def Let_def gm ms_def [symmetric])
  have keys: "fst ` set fs = model_name ` set ms
                 \<union> (\<lambda>m. model_name m @ ''_smodel'') ` set (filter capable ms)"
    unfolding k batch_def by (simp add: image_Un image_image)
  have three: "length fs = 3"
    if h: "ms = [m1, m2] \<and> lower (split_first (model_name m1)) \<noteq> lower (split_first (model_name m2))
         \<and> capable m1 \<noteq> capable m2" for m1 m2
  proof -
    let ?n1 = "model_name m1" and ?n2 = "model_name m2"
    from h have ne: "?n1 \<noteq> ?n2" by auto
    have s1: "?n1 @ ''_smodel'' \<noteq> ?n1" and s2: "?n2 @ ''_smodel'' \<noteq> ?n2" by simp_all
    from h have x1: "?n1 @ ''_smodel'' \<noteq> ?n2" and x2: "?n2 @ ''_smodel'' \<noteq> ?n1"
      using split_first_smodel [of ?n1] split_first_smodel [of ?n2] by auto
    show ?thesis
    proof (cases "capable m1")
      case True
      with h have "\<not> capable m2" by simp
      with True h keys have "fst ` set fs = {?n1, ?n2, ?n1 @ ''_smodel''}" by auto
      from three_keys [OF dd this ne] s1 x1 show ?thesis by simp
    next
      case False
      with h have "capable m2" by simp
      with False h keys have "fst ` set fs = {?n1, ?n2, ?n2 @ ''_smodel''}" by auto
      from three_keys [OF dd this ne] s2 x2 show ?thesis by simp
    qed
  qed
  show ?thesis
  proof (intro exI conjI)
    show "fit env self = Inr ?self'" by (rule 1)
    show "fitted ?self' = Some fs" by simp
    show "ensemble_model_params ?self' = Some batch" by simp
    show "distinct (map fst fs)" by (rule dd)
    show "fst ` set fs = model_name ` set ms
                 \<union> (\<lambda>m. model_name m @ ''_smodel'') ` set (filter capable ms)" by (rule keys)
    show "\<forall>(k, v) \<in> set fs. \<exists>m \<in> set batch. \<exists>cls.
                 k = model_name m \<and> model_class_of k = Inr cls
                 \<and> v = fit_single env (snd (deseasonalize env (data self) dmethod)) cls
                         (model_params m)"
      using v by (simp add: ds)
    show "\<forall>m1 m2. ms = [m1, m2]
                 \<and> lower (split_first (model_name m1)) \<noteq> lower (split_first (model_name m2))
                 \<and> capable m1 \<noteq> capable m2
                 \<longrightarrow> length fs = 3"
      using three by blast
  qed
qed

theorem fit_seasonal_batch_witness:
  "\<exists>self' fs. fit env0 ensemble1 = Inr self' \<and> fitted self' = Some fs \<and> length fs = 3
      \<and> fst ` set fs = {''arima'', ''theta'', ''theta_smodel''}
      \<and> map model_name (the (ensemble_model_params self')) = [''arima'', ''theta'', ''theta_smodel'']"
proof -
  have 1: "seasonality_detector env0 (data ensemble1)" by (simp add: env0_def)
  have 2: "param_seasonality_length (params ensemble1) = Some 2"
    by (simp add: ensemble1_def params1_def)
  have 3: "param_fitExecutor (params ensemble1) = None" by (simp add: ensemble1_def params1_def)
  have 4: "decomposition_method ensemble1 = Some ''additive''" by (simp add: ensemble1_def)
  have 5: "3 \<le> cpu_count env0" by (simp add: env0_def)
  have ms: "param_models (params ensemble1) = arima_theta" by (simp add: ensemble1_def params1_def)
  have 6: "\<forall>m \<in> set (param_models (params ensemble1)). \<exists>cls. model_class_of (model_name m) = Inr cls"
    by (simp add: ms arima_theta_def model_class_of_def MODELS_def lower_def lower_char_def
        split_first_def)
  have 7: "\<forall>p c. 0 \<le> backtester_single env0 (data ensemble1) p c ''mape''"
    by (simp add: env0_def)
  have cap: "lower ''arima'' \<notin> set (map fst SMODELS)" "lower ''theta'' \<in> set (map fst SMODELS)"
    by (simp_all add: SMODELS_def lower_def lower_char_def)
  let ?batch = "arima_theta @ map (\<lambda>m. m\<lparr>model_name := model_name m @ ''_smodel''\<rparr>)
                   (filter (\<lambda>m. lower (model_name m) \<in> set (map fst SMODELS)) arima_theta)"
  let ?P = "\<lambda>self' fs. fit env0 ensemble1 = Inr self' \<and> fitted self' = Some fs
           \<and> ensemble_model_params self' = Some ?batch
           \<and> distinct (map fst fs)
           \<and> fst ` set fs = model_name ` set arima_theta
                 \<union> (\<lambda>m. model_name m @ ''_smodel'') `
                     set (filter (\<lambda>m. lower (model_name m) \<in> set (map fst SMODELS)) arima_theta)
           \<and> (\<forall>(k, v) \<in> set fs. \<exists>m \<in> set ?batch. \<exists>cls.
                 k = model_name m \<and> model_class_of k = Inr cls
                 \<and> v = fit_single env0 (snd (deseasonalize env0 (data ensemble1) ''additive'')) cls
                         (model_params m))
           \<and> (\<forall>m1 m2. arima_theta = [m1, m2]
                 \<and> lower (split_first (model_name m1)) \<noteq> lower (split_first (model_name m2))
                 \<and> (lower (model_name m1) \<in> set (map fst SMODELS))
                     \<noteq> (lower (model_name m2) \<in> set (map fst SMODELS))
                 \<longrightarrow> length fs = 3)"
  have "\<exists>self' fs. ?P self' fs"
    using fit_seasonal_batch [OF 1 2 3 4 5 6 7] unfolding ms .
  then obtain self' where "\<exists>fs. ?P self' fs" ..
  then obtain fs where all: "?P self' fs" ..
  note a = all [THEN conjunct1]
  note b = all [THEN conjunct2, THEN conjunct1]
  note c = all [THEN conjunct2, THEN conjunct2, THEN conjunct1]
  note k = all [THEN conjunct2, THEN conjunct2, THEN conjunct2, THEN conjunct2, THEN conjunct1]
  note l = all [THEN conjunct2, THEN conjunct2, THEN conjunct2, THEN conjunct2, THEN conjunct2,
                THEN conjunct2]
  have "length fs = 3"
  proof (rule l [THEN spec, THEN spec, THEN mp])
    show "arima_theta = [\<lparr>model_name = ''arima'', model_params = ()\<rparr>,
                         \<lparr>model_name = ''theta'', model_params = ()\<rparr>]
        \<and> lower (split_first (model_name \<lparr>model_name = ''arima'', model_params = ()\<rparr>))
             \<noteq> lower (split_first (model_name \<lparr>model_name = ''theta'', model_params = ()\<rparr>))
        \<and> (lower (model_name \<lparr>model_name = ''arima'', model_params = ()\<rparr>) \<in> set (map fst SMODELS))
             \<noteq> (lower (model_name \<lparr>model_name = ''theta'', model_params = ()\<rparr>)
                   \<in> set (map fst SMODELS))"
      by (simp add: arima_theta_def SMODELS_def lower_def lower_char_def split_first_def)
  qed
  moreover have "fst ` set fs = {''arima'', ''theta'', ''theta_smodel''}"
    unfolding k using cap by (simp add: arima_theta_def insert_commute)
  moreover from c cap have "map model_name (the (ensemble_model_params self')) = [''arima'', ''theta'', ''theta_smodel'']"
    by (simp add: arima_theta_def)
  ultimately show ?thesis using a b by (intro exI [of _ self'] exI [of _ fs] conjI)
qed

text \<open>
  The family of a model is the part of its name before the first underscore, lower-cased
  (\<open>fitExecutor\<close>: \<open>MODELS[model.model_name.split("_")[0].lower()]\<close>), whereas \<open>fit\<close> tests
  the whole name. A model named \<open>theta_2\<close> is of the seasonal-capable family \<open>theta\<close> and
  is not copied: with the two families \<open>arima\<close> and \<open>theta\<close> configured under the names
  \<open>arima\<close> and \<open>theta_2\<close>, of which exactly one is seasonal-capable, \<open>fit\<close> on a seasonal
  series produces 2 fitted artifacts.
\<close>

theorem fit_suffixed_name_not_copied:
  "lower (split_first ''theta_2'') \<in> set (map fst SMODELS)
   \<and> lower (split_first ''arima'') \<notin> set (map fst SMODELS)
   \<and> model_class_of ''arima'' = Inr ARIMAModel
   \<and> model_class_of ''theta_2'' = Inr ThetaModel
   \<and> seasonality_detector env0 (data ensemble2)
   \<and> fit env0 ensemble2 =
       Inr (ensemble2\<lparr>seasonality := Some True, sea_data := Some four_points,
                      desea_data := Some four_points,
                      ensemble_model_params := Some arima_theta_2,
                      fitted := Some [(''arima'', ()), (''theta_2'', ())], weights := None\<rparr>)
   \<and> length [(''arima'', ()), (''theta_2'', ())] = 2"
  by (simp add: fit_def fitExecutor_def fitExecutor_pool_def Pool_def num_process_def
      given_models_def model_class_of_def MODELS_def SMODELS_def lower_def lower_char_def
      split_first_def ensemble2_def params2_def arima_theta_2_def env0_def Let_def)

subsection \<open>Reseasonalization\<close>

lemma repetitions_floor:
  assumes "0 \<le> s" "0 < p"
  shows "repetitions s p = Inr (1 + s div p)"
proof -
  have nn: "0 \<le> 1 + real_of_int s / real_of_int p" using assms by simp
  have "\<lfloor>1 + real_of_int s / real_of_int p\<rfloor> = 1 + \<lfloor>real_of_int s / real_of_int p\<rfloor>"
    by linarith
  also have "\<lfloor>real_of_int s / real_of_int p\<rfloor> = s div p" by (rule floor_divide_of_int_eq)
  finally show ?thesis using assms nn by (simp add: repetitions_def trunc_def)
qed

lemma slice_from_last:
  assumes "0 < p"
  shows "slice_from (- p) v = drop (length v - nat p) v"
  using assms by (simp add: slice_from_def)

lemma length_concat_replicate: "length (concat (replicate n xs)) = n * length xs"
  by (induction n) simp_all

lemma tiles_cover:
  assumes "0 \<le> s" "0 < p"
  shows "nat s \<le> nat (1 + s div p) * nat p"
proof -
  have "s = p * (s div p) + s mod p" by simp
  moreover have "s mod p < p" using assms(2) by simp
  ultimately have "s < p * (s div p) + p" by linarith
  then have "s \<le> (1 + s div p) * p" by (simp add: algebra_simps)
  moreover have "0 \<le> s div p" using assms by (simp add: pos_imp_zdiv_nonneg_iff)
  then have "0 \<le> 1 + s div p" by linarith
  ultimately have "nat s \<le> nat ((1 + s div p) * p)" and "0 \<le> 1 + s div p"
    by (simp_all add: nat_mono)
  then show ?thesis by (simp add: nat_mult_distrib)
qed

lemma tiled_unit_claimed:
  assumes "0 \<le> s" "0 < p" "nat p \<le> length v"
  shows "tiled_unit (slice_from (- p) v) (1 + s div p) s = Inr (claimed_unit v p s)"
    and "length (claimed_unit v p s) = nat s"
proof -
  have "0 \<le> s div p" using assms(1,2) by (simp add: pos_imp_zdiv_nonneg_iff)
  then have r: "\<not> 1 + s div p < 0" by linarith
  show "tiled_unit (slice_from (- p) v) (1 + s div p) s = Inr (claimed_unit v p s)"
    using assms r by (simp add: tiled_unit_def tile_def slice_to_def slice_from_last claimed_unit_def)
  have "length (drop (length v - nat p) v) = nat p" using assms(3) by simp
  then have "length (concat (replicate (nat (1 + s div p)) (drop (length v - nat p) v)))
               = nat (1 + s div p) * nat p"
    by (simp only: length_concat_replicate)
  with tiles_cover [OF assms(1,2)] show "length (claimed_unit v p s) = nat s"
    by (simp add: claimed_unit_def)
qed

lemma three_names:
  assumes "distinct xs" and "set xs = {a, b, c}" and "a \<noteq> b" "a \<noteq> c" "b \<noteq> c"
  shows "length xs = 3"
proof -
  have "length xs = card (set xs)" using assms(1) by (simp only: distinct_card)
  also have "\<dots> = 3" using assms(2-5) by simp
  finally show ?thesis .
qed

lemma map_fst_filter_names:
  "map fst (filter (\<lambda>(c, v). c \<noteq> t) cols) = filter (\<lambda>c. c \<noteq> t) (map fst cols)"
  by (induction cols) auto

lemma bounded_frame_columns:
  assumes "forecast_frame n df" "has_bounds df"
  shows "length (filter (\<lambda>(c, v). c \<noteq> ''time'') (columns df)) = 3"
proof -
  let ?names = "map fst (filter (\<lambda>(c, v). c \<noteq> ''time'') (columns df))"
  have d: "distinct ?names"
    using assms(1) by (simp add: forecast_frame_def map_fst_filter_names)
  have "set ?names = set (map fst (columns df)) - {''time''}"
    by (auto simp add: map_fst_filter_names)
  also have "\<dots> = {''fcst'', ''fcst_lower'', ''fcst_upper''}"
    using assms by (auto simp add: forecast_frame_def has_bounds_def has_column_def)
  finally have s: "set ?names = {''fcst'', ''fcst_lower'', ''fcst_upper''}" .
  have "length ?names = 3" by (rule three_names [OF d s]) simp_all
  then show ?thesis by simp
qed

lemma filter_absent_name:
  "t \<notin> set (map fst cols) \<Longrightarrow> filter (\<lambda>(c, v). c \<noteq> t) cols = cols"
  by (induction cols) auto

lemma filter_no_time:
  "\<not> has_column ''time'' df \<Longrightarrow> filter (\<lambda>(c, v). c \<noteq> ''time'') (columns df) = columns df"
  unfolding has_column_def by (rule filter_absent_name)

lemma frame_column_length:
  assumes "forecast_frame n df" "map_of (columns df) c = Some v"
  shows "length v = n"
proof -
  from assms(2) have "(c, v) \<in> set (columns df)" by (rule map_of_SomeD)
  with assms(1) show ?thesis by (auto simp add: forecast_frame_def list_all_iff)
qed

lemma has_column_map_of: "has_column c df \<longleftrightarrow> (\<exists>v. map_of (columns df) c = Some v)"
  unfolding has_column_def using map_of_eq_None_iff [of "columns df" c] by auto

lemma reseasonalize_frame_bounds:
  assumes ok: "forecast_frame n df" and hb: "has_bounds df"
    and t: "tiled_unit u rep s = Inr arr" and la: "length arr = n"
  shows "reseasonalize_frame f fill u rep s df =
           Inr \<lparr>index = (if has_column ''time'' df then the (map_of (columns df) ''time'')
                         else index df),
                columns = map (\<lambda>(c, v). (c, map2 (cell_op f) v arr))
                            (filter (\<lambda>(c, v). c \<noteq> ''time'') (columns df))\<rparr>"
proof (cases "has_column ''time'' df")
  case True
  then obtain col where c: "map_of (columns df) ''time'' = Some col"
    by (auto simp add: has_column_map_of)
  have lc: "length col = n" by (rule frame_column_length [OF ok c])
  from bounded_frame_columns [OF ok hb] lc la True c t hb show ?thesis
    by (simp add: reseasonalize_frame_def has_bounds_def set_index_def frame_arith_def)
next
  case False
  from ok have "length (index df) = n" by (simp add: forecast_frame_def)
  with bounded_frame_columns [OF ok hb] la False t hb show ?thesis
    by (simp add: reseasonalize_frame_def has_bounds_def frame_arith_def filter_no_time)
qed

lemma reseasonalize_frame_no_bounds:
  assumes ok: "forecast_frame n df" and hb: "\<not> has_bounds df"
    and t: "tiled_unit u rep s = Inr arr" and la: "length arr = n"
  shows "reseasonalize_frame f fill u rep s df =
           Inr \<lparr>index = index df,
                columns = [(''fcst'', map2 (cell_op f) (the (map_of (columns df) ''fcst'')) arr),
                           (''fcst_lower'', replicate n fill),
                           (''fcst_upper'', replicate n fill)]\<rparr>"
proof -
  from ok have "has_column ''fcst'' df" by (simp add: forecast_frame_def has_column_def)
  then obtain v where c: "map_of (columns df) ''fcst'' = Some v"
    by (auto simp add: has_column_map_of)
  have lv: "length v = n" by (rule frame_column_length [OF ok c])
  from ok have li: "length (index df) = n" by (simp add: forecast_frame_def)
  from hb have nb: "(has_column ''fcst_lower'' df \<and> has_column ''fcst_upper'' df) = False"
    by (simp add: has_bounds_def)
  show ?thesis
    unfolding reseasonalize_frame_def nb using c lv la t li
    by (simp add: series_arith_def)
qed

lemma reseasonalize_loop_map:
  assumes "\<forall>(k, df) \<in> set items.
             (if dmethod = ''additive'' then reseasonalize_frame (+) None u rep s df
              else reseasonalize_frame (*) (Some 0) u rep s df) = Inr (G df)"
    and "distinct (map fst items)"
    and "fst ` set items \<inter> fst ` set acc = {}"
  shows "reseasonalize_loop dmethod u rep s items acc = Inr (acc @ map (\<lambda>(k, df). (k, G df)) items)"
  using assms
proof (induction items arbitrary: acc)
  case Nil then show ?case by simp
next
  case (Cons x items)
  obtain k df where x: "x = (k, df)" by (cases x)
  from Cons.prems(1) x have h: "(if dmethod = ''additive'' then reseasonalize_frame (+) None u rep s df
              else reseasonalize_frame (*) (Some 0) u rep s df) = Inr (G df)" by simp
  from Cons.prems(3) x have fresh: "k \<notin> fst ` set acc" by auto
  have upd: "AList.update k (G df) acc = acc @ [(k, G df)]" by (rule update_fresh [OF fresh])
  have 1: "\<forall>(k, df) \<in> set items.
             (if dmethod = ''additive'' then reseasonalize_frame (+) None u rep s df
              else reseasonalize_frame (*) (Some 0) u rep s df) = Inr (G df)"
    using Cons.prems(1) by simp
  have 2: "distinct (map fst items)" using Cons.prems(2) by simp
  have 3: "fst ` set items \<inter> fst ` set (acc @ [(k, G df)]) = {}"
    using Cons.prems(2,3) x by auto
  from Cons.IH [OF 1 2 3] h x upd show ?case by simp
qed

lemma map_of_map_value:
  "distinct (map fst xs) \<Longrightarrow> (k, x) \<in> set xs \<Longrightarrow>
     map_of (map (\<lambda>(k, x). (k, g x)) xs) k = Some (g x)"
  by (induction xs) (auto simp add: rev_image_eqI)

lemma reseasonalize_result:
  assumes p: "0 < p" and v: "nat p \<le> length (ts_value sea)" and s: "0 \<le> s"
    and d: "distinct (map fst dp)"
    and ok: "\<forall>(k, df) \<in> set dp. forecast_frame (nat s) df"
  shows "reseasonalize sea dp dmethod p s =
           Inr (map (\<lambda>(k, df). (k, claimed_frame (if dmethod = ''additive'' then (+) else (*))
                                      (if dmethod = ''additive'' then None else Some 0)
                                      (claimed_unit (ts_value sea) p s) df)) dp)"
proof -
  let ?u = "slice_from (- p) (ts_value sea)"
  let ?arr = "claimed_unit (ts_value sea) p s"
  let ?G = "claimed_frame (if dmethod = ''additive'' then (+) else (*))
              (if dmethod = ''additive'' then None else Some 0) ?arr"
  note t = tiled_unit_claimed [OF s p v]
  have each: "reseasonalize_frame f fill ?u (1 + s div p) s df = Inr (claimed_frame f fill ?arr df)"
    if "forecast_frame (nat s) df" for f fill df
  proof (cases "has_bounds df")
    case True
    from reseasonalize_frame_bounds [OF that True t] True show ?thesis
      by (simp add: claimed_frame_def)
  next
    case False
    from reseasonalize_frame_no_bounds [OF that False t] False t(2) show ?thesis
      by (simp add: claimed_frame_def)
  qed
  have all: "\<forall>(k, df) \<in> set dp.
             (if dmethod = ''additive'' then reseasonalize_frame (+) None ?u (1 + s div p) s df
              else reseasonalize_frame (*) (Some 0) ?u (1 + s div p) s df) = Inr (?G df)"
    using ok each by auto
  have "reseasonalize_loop dmethod ?u (1 + s div p) s dp [] = Inr ([] @ map (\<lambda>(k, df). (k, ?G df)) dp)"
    by (rule reseasonalize_loop_map [OF all d]) simp
  then show ?thesis
    by (simp add: reseasonalize_def repetitions_floor [OF s p])
qed

lemma two_forecasts_frames: "\<forall>(k, df) \<in> set two_forecasts. forecast_frame (nat 3) df"
  by (simp add: two_forecasts_def forecast_frame_def)

lemma two_forecasts_distinct: "distinct (map fst two_forecasts)"
  by (simp add: two_forecasts_def)

lemma four_points_unit: "claimed_unit (ts_value four_points) 2 3 = [Some 5, Some 6, Some 5]"
  by (simp add: claimed_unit_def four_points_def numeral_2_eq_2 numeral_3_eq_3)

text \<open>
  C5. For a seasonality period \<open>p > 0\<close> that the seasonal component covers and a horizon of
  \<open>s \<ge> 0\<close> steps, the number of repetitions is \<open>1 + floor(s / p)\<close>, and the seasonal unit
  the code builds is the last \<open>p\<close> values of the seasonal component tiled that many times
  and truncated to exactly \<open>s\<close> values. Additive reseasonalization of forecasts of \<open>s\<close> rows
  succeeds and keeps the model names; for a model whose forecast carries \<open>fcst_lower\<close> and
  \<open>fcst_upper\<close> the unit is added elementwise to each of its columns (forecast, lower and
  upper), and for a model without them it is added to the point forecast only, while both
  bounds are not-a-number in every row.
\<close>

theorem reseasonalize_additive:
  fixes sea :: series and p s :: int
  defines "u \<equiv> claimed_unit (ts_value sea) p s"
  assumes "0 < p" and "nat p \<le> length (ts_value sea)" and "0 \<le> s"
    and "distinct (map fst desea_predict)"
    and "\<forall>(k, df) \<in> set desea_predict. forecast_frame (nat s) df"
  shows "repetitions s p = Inr (1 + s div p)
       \<and> tiled_unit (slice_from (- p) (ts_value sea)) (1 + s div p) s = Inr u
       \<and> slice_from (- p) (ts_value sea) = drop (length (ts_value sea) - nat p) (ts_value sea)
       \<and> length u = nat s
       \<and> (\<exists>predicted.
            reseasonalize sea desea_predict ''additive'' p s = Inr predicted
          \<and> map fst predicted = map fst desea_predict
          \<and> (\<forall>(k, df) \<in> set desea_predict. \<exists>r. map_of predicted k = Some r
               \<and> (has_bounds df \<longrightarrow>
                    columns r = map (\<lambda>(c, v). (c, map2 (cell_op (+)) v u))
                                  (filter (\<lambda>(c, v). c \<noteq> ''time'') (columns df)))
               \<and> (\<not> has_bounds df \<longrightarrow>
                    columns r =
                      [(''fcst'', map2 (cell_op (+)) (the (map_of (columns df) ''fcst'')) u),
                       (''fcst_lower'', replicate (nat s) None),
                       (''fcst_upper'', replicate (nat s) None)])))"
proof (intro conjI)
  note t = tiled_unit_claimed [OF assms(4,2,3)]
  show "repetitions s p = Inr (1 + s div p)" by (rule repetitions_floor [OF assms(4,2)])
  show "tiled_unit (slice_from (- p) (ts_value sea)) (1 + s div p) s = Inr u"
    unfolding u_def by (rule t(1))
  show "slice_from (- p) (ts_value sea) = drop (length (ts_value sea) - nat p) (ts_value sea)"
    by (rule slice_from_last [OF assms(2)])
  show "length u = nat s" unfolding u_def by (rule t(2))
  let ?res = "map (\<lambda>(k, df). (k, claimed_frame (+) None u df)) desea_predict"
  have r: "reseasonalize sea desea_predict ''additive'' p s = Inr ?res"
    using reseasonalize_result [OF assms(2,3,4,5,6), of "''additive''"] by (simp add: u_def)
  show "\<exists>predicted.
            reseasonalize sea desea_predict ''additive'' p s = Inr predicted
          \<and> map fst predicted = map fst desea_predict
          \<and> (\<forall>(k, df) \<in> set desea_predict. \<exists>r. map_of predicted k = Some r
               \<and> (has_bounds df \<longrightarrow>
                    columns r = map (\<lambda>(c, v). (c, map2 (cell_op (+)) v u))
                                  (filter (\<lambda>(c, v). c \<noteq> ''time'') (columns df)))
               \<and> (\<not> has_bounds df \<longrightarrow>
                    columns r =
                      [(''fcst'', map2 (cell_op (+)) (the (map_of (columns df) ''fcst'')) u),
                       (''fcst_lower'', replicate (nat s) None),
                       (''fcst_upper'', replicate (nat s) None)]))"
  proof (intro exI [of _ ?res] conjI)
    show "reseasonalize sea desea_predict ''additive'' p s = Inr ?res" by (rule r)
    show "map fst ?res = map fst desea_predict" by (simp add: case_prod_unfold comp_def)
    show "\<forall>(k, df) \<in> set desea_predict. \<exists>r. map_of ?res k = Some r
               \<and> (has_bounds df \<longrightarrow>
                    columns r = map (\<lambda>(c, v). (c, map2 (cell_op (+)) v u))
                                  (filter (\<lambda>(c, v). c \<noteq> ''time'') (columns df)))
               \<and> (\<not> has_bounds df \<longrightarrow>
                    columns r =
                      [(''fcst'', map2 (cell_op (+)) (the (map_of (columns df) ''fcst'')) u),
                       (''fcst_lower'', replicate (nat s) None),
                       (''fcst_upper'', replicate (nat s) None)])"
    proof (clarify)
      fix k df assume m: "(k, df) \<in> set desea_predict"
      have "map_of ?res k = Some (claimed_frame (+) None u df)"
        by (rule map_of_map_value [OF assms(5) m])
      moreover have "has_bounds df \<longrightarrow>
                    columns (claimed_frame (+) None u df) = map (\<lambda>(c, v). (c, map2 (cell_op (+)) v u))
                                  (filter (\<lambda>(c, v). c \<noteq> ''time'') (columns df))"
        by (simp add: claimed_frame_def)
      moreover have "\<not> has_bounds df \<longrightarrow>
                    columns (claimed_frame (+) None u df) =
                      [(''fcst'', map2 (cell_op (+)) (the (map_of (columns df) ''fcst'')) u),
                       (''fcst_lower'', replicate (nat s) None),
                       (''fcst_upper'', replicate (nat s) None)]"
        using t(2) by (simp add: claimed_frame_def u_def)
      ultimately show "\<exists>r. map_of ?res k = Some r
               \<and> (has_bounds df \<longrightarrow>
                    columns r = map (\<lambda>(c, v). (c, map2 (cell_op (+)) v u))
                                  (filter (\<lambda>(c, v). c \<noteq> ''time'') (columns df)))
               \<and> (\<not> has_bounds df \<longrightarrow>
                    columns r =
                      [(''fcst'', map2 (cell_op (+)) (the (map_of (columns df) ''fcst'')) u),
                       (''fcst_lower'', replicate (nat s) None),
                       (''fcst_upper'', replicate (nat s) None)])"
        by (intro exI [of _ "claimed_frame (+) None u df"] conjI)
    qed
  qed
qed

theorem reseasonalize_additive_witness:
  "repetitions 3 2 = Inr 2
   \<and> reseasonalize four_points two_forecasts ''additive'' 2 3 =
       Inr [(''arima'',
             \<lparr>index = [Some 4, Some 5, Some 6],
              columns = [(''fcst'', [Some 15, Some 26, Some 35]),
                         (''fcst_lower'', [Some 14, Some 25, Some 34]),
                         (''fcst_upper'', [Some 16, Some 27, Some 36])]\<rparr>),
            (''linear'',
             \<lparr>index = [Some 4, Some 5, Some 6],
              columns = [(''fcst'', [Some 6, Some 8, Some 8]),
                         (''fcst_lower'', [None, None, None]),
                         (''fcst_upper'', [None, None, None])]\<rparr>)]"
proof -
  have 1: "(0::int) < 2" by simp
  have 2: "nat 2 \<le> length (ts_value four_points)" by (simp add: four_points_def)
  have 3: "(0::int) \<le> 3" by simp
  note T = reseasonalize_additive [OF 1 2 3 two_forecasts_distinct two_forecasts_frames]
  from T [THEN conjunct1] have r: "repetitions 3 2 = Inr 2" by simp
  from T [THEN conjunct2, THEN conjunct1]
  have t: "tiled_unit (slice_from (- 2) (ts_value four_points)) 2 3
             = Inr [Some 5, Some 6, Some 5]"
    by (simp add: four_points_unit)
  have "reseasonalize four_points two_forecasts ''additive'' 2 3 =
       Inr [(''arima'',
             \<lparr>index = [Some 4, Some 5, Some 6],
              columns = [(''fcst'', [Some 15, Some 26, Some 35]),
                         (''fcst_lower'', [Some 14, Some 25, Some 34]),
                         (''fcst_upper'', [Some 16, Some 27, Some 36])]\<rparr>),
            (''linear'',
             \<lparr>index = [Some 4, Some 5, Some 6],
              columns = [(''fcst'', [Some 6, Some 8, Some 8]),
                         (''fcst_lower'', [None, None, None]),
                         (''fcst_upper'', [None, None, None])]\<rparr>)]"
    by (simp add: reseasonalize_def r two_forecasts_def reseasonalize_frame_def has_column_def t
        frame_arith_def series_arith_def numeral_3_eq_3)
  with r show ?thesis by simp
qed

text \<open>
  C4. Under any decomposition method other than \<open>additive\<close>, that is, in multiplicative
  reseasonalization, for every model whose forecast lacks the bound columns the output
  point forecast is the input forecast multiplied elementwise by the tiled seasonal unit,
  and both output bounds are zero in every row; on the same input the additive path sets
  both bounds to not-a-number.
\<close>

theorem reseasonalize_multiplicative:
  fixes sea :: series and p s :: int
  defines "u \<equiv> claimed_unit (ts_value sea) p s"
  assumes "0 < p" and "nat p \<le> length (ts_value sea)" and "0 \<le> s"
    and "distinct (map fst desea_predict)"
    and "\<forall>(k, df) \<in> set desea_predict. forecast_frame (nat s) df"
    and "dmethod \<noteq> ''additive''"
  shows "\<exists>predicted predicted'.
            reseasonalize sea desea_predict dmethod p s = Inr predicted
          \<and> reseasonalize sea desea_predict ''additive'' p s = Inr predicted'
          \<and> (\<forall>(k, df) \<in> set desea_predict. \<not> has_bounds df \<longrightarrow>
               (\<exists>r r'. map_of predicted k = Some r \<and> map_of predicted' k = Some r'
                 \<and> columns r =
                      [(''fcst'', map2 (cell_op (*)) (the (map_of (columns df) ''fcst'')) u),
                       (''fcst_lower'', replicate (nat s) (Some 0)),
                       (''fcst_upper'', replicate (nat s) (Some 0))]
                 \<and> map_of (columns r') ''fcst_lower'' = Some (replicate (nat s) None)
                 \<and> map_of (columns r') ''fcst_upper'' = Some (replicate (nat s) None)))"
proof -
  note t = tiled_unit_claimed [OF assms(4,2,3)]
  let ?res = "map (\<lambda>(k, df). (k, claimed_frame (*) (Some 0) u df)) desea_predict"
  let ?res' = "map (\<lambda>(k, df). (k, claimed_frame (+) None u df)) desea_predict"
  have r: "reseasonalize sea desea_predict dmethod p s = Inr ?res"
    using reseasonalize_result [OF assms(2,3,4,5,6), of dmethod] assms(7) by (simp add: u_def)
  have r': "reseasonalize sea desea_predict ''additive'' p s = Inr ?res'"
    using reseasonalize_result [OF assms(2,3,4,5,6), of "''additive''"] by (simp add: u_def)
  have each: "\<exists>r r'. map_of ?res k = Some r \<and> map_of ?res' k = Some r'
                 \<and> columns r =
                      [(''fcst'', map2 (cell_op (*)) (the (map_of (columns df) ''fcst'')) u),
                       (''fcst_lower'', replicate (nat s) (Some 0)),
                       (''fcst_upper'', replicate (nat s) (Some 0))]
                 \<and> map_of (columns r') ''fcst_lower'' = Some (replicate (nat s) None)
                 \<and> map_of (columns r') ''fcst_upper'' = Some (replicate (nat s) None)"
    if m: "(k, df) \<in> set desea_predict" and nb: "\<not> has_bounds df" for k df
  proof (rule exI [of _ "claimed_frame (*) (Some 0) u df"],
         rule exI [of _ "claimed_frame (+) None u df"], intro conjI)
    show "map_of ?res k = Some (claimed_frame (*) (Some 0) u df)"
      by (rule map_of_map_value [OF assms(5) m])
    show "map_of ?res' k = Some (claimed_frame (+) None u df)"
      by (rule map_of_map_value [OF assms(5) m])
    show "columns (claimed_frame (*) (Some 0) u df) =
                      [(''fcst'', map2 (cell_op (*)) (the (map_of (columns df) ''fcst'')) u),
                       (''fcst_lower'', replicate (nat s) (Some 0)),
                       (''fcst_upper'', replicate (nat s) (Some 0))]"
      using nb t(2) by (simp add: claimed_frame_def u_def)
    show "map_of (columns (claimed_frame (+) None u df)) ''fcst_lower'' = Some (replicate (nat s) None)"
      using nb t(2) by (simp add: claimed_frame_def u_def)
    show "map_of (columns (claimed_frame (+) None u df)) ''fcst_upper'' = Some (replicate (nat s) None)"
      using nb t(2) by (simp add: claimed_frame_def u_def)
  qed
  show ?thesis
  proof (rule exI [of _ ?res], rule exI [of _ ?res'], intro conjI)
    show "reseasonalize sea desea_predict dmethod p s = Inr ?res" by (rule r)
    show "reseasonalize sea desea_predict ''additive'' p s = Inr ?res'" by (rule r')
    show "\<forall>(k, df) \<in> set desea_predict. \<not> has_bounds df \<longrightarrow>
               (\<exists>r r'. map_of ?res k = Some r \<and> map_of ?res' k = Some r'
                 \<and> columns r =
                      [(''fcst'', map2 (cell_op (*)) (the (map_of (columns df) ''fcst'')) u),
                       (''fcst_lower'', replicate (nat s) (Some 0)),
                       (''fcst_upper'', replicate (nat s) (Some 0))]
                 \<and> map_of (columns r') ''fcst_lower'' = Some (replicate (nat s) None)
                 \<and> map_of (columns r') ''fcst_upper'' = Some (replicate (nat s) None))"
    proof (clarify)
      fix k df assume "(k, df) \<in> set desea_predict" and "\<not> has_bounds df"
      then show "\<exists>r r'. map_of ?res k = Some r \<and> map_of ?res' k = Some r'
                 \<and> columns r =
                      [(''fcst'', map2 (cell_op (*)) (the (map_of (columns df) ''fcst'')) u),
                       (''fcst_lower'', replicate (nat s) (Some 0)),
                       (''fcst_upper'', replicate (nat s) (Some 0))]
                 \<and> map_of (columns r') ''fcst_lower'' = Some (replicate (nat s) None)
                 \<and> map_of (columns r') ''fcst_upper'' = Some (replicate (nat s) None)"
        by (rule each)
    qed
  qed
qed

theorem reseasonalize_multiplicative_witness:
  "reseasonalize four_points two_forecasts ''multiplicative'' 2 3 =
       Inr [(''arima'',
             \<lparr>index = [Some 4, Some 5, Some 6],
              columns = [(''fcst'', [Some 50, Some 120, Some 150]),
                         (''fcst_lower'', [Some 45, Some 114, Some 145]),
                         (''fcst_upper'', [Some 55, Some 126, Some 155])]\<rparr>),
            (''linear'',
             \<lparr>index = [Some 4, Some 5, Some 6],
              columns = [(''fcst'', [Some 5, Some 12, Some 15]),
                         (''fcst_lower'', [Some 0, Some 0, Some 0]),
                         (''fcst_upper'', [Some 0, Some 0, Some 0])]\<rparr>)]"
proof -
  have 1: "(0::int) < 2" by simp
  have 2: "nat 2 \<le> length (ts_value four_points)" by (simp add: four_points_def)
  have 3: "(0::int) \<le> 3" by simp
  have 4: "''multiplicative'' \<noteq> ''additive''" by simp
  note T = reseasonalize_multiplicative
             [OF 1 2 3 two_forecasts_distinct two_forecasts_frames 4]
  let ?res = "map (\<lambda>(k, df). (k, claimed_frame (*) (Some 0) [Some 5, Some 6, Some 5] df)) two_forecasts"
  from T obtain predicted where "reseasonalize four_points two_forecasts ''multiplicative'' 2 3 = Inr predicted"
    by (elim exE conjE)
  moreover have "reseasonalize four_points two_forecasts ''multiplicative'' 2 3 = Inr ?res"
    using reseasonalize_result [OF 1 2 3 two_forecasts_distinct two_forecasts_frames,
        of "''multiplicative''"]
    by (simp add: four_points_unit)
  moreover have "?res = [(''arima'',
             \<lparr>index = [Some 4, Some 5, Some 6],
              columns = [(''fcst'', [Some 50, Some 120, Some 150]),
                         (''fcst_lower'', [Some 45, Some 114, Some 145]),
                         (''fcst_upper'', [Some 55, Some 126, Some 155])]\<rparr>),
            (''linear'',
             \<lparr>index = [Some 4, Some 5, Some 6],
              columns = [(''fcst'', [Some 5, Some 12, Some 15]),
                         (''fcst_lower'', [Some 0, Some 0, Some 0]),
                         (''fcst_upper'', [Some 0, Some 0, Some 0])]\<rparr>)]"
    by (simp add: two_forecasts_def claimed_frame_def has_bounds_def has_column_def numeral_3_eq_3)
  ultimately show ?thesis by simp
qed

subsection \<open>Aggregation\<close>

lemma bounded_column:
  assumes "bounded_forecasts n prd" "(k, df) \<in> set prd" "c \<in> set [''fcst'', ''fcst_lower'', ''fcst_upper'']"
  shows "map_of (columns df) c = Some (column c df) \<and> length (column c df) = n"
proof -
  from assms(1,2) have "list_all (\<lambda>c. case map_of (columns df) c of None \<Rightarrow> False | Some v \<Rightarrow> length v = n)
             [''fcst'', ''fcst_lower'', ''fcst_upper'']"
    by (auto simp add: bounded_forecasts_def list_all_iff)
  with assms(3) have "case map_of (columns df) c of None \<Rightarrow> False | Some v \<Rightarrow> length v = n"
    by (auto simp add: list_all_iff)
  then show ?thesis by (simp add: column_def split: option.splits)
qed

lemma collect_columns:
  assumes "\<forall>df \<in> set fs. map_of (columns df) c = Some (column c df)"
  shows "collect c fs = Inr (map (column c) fs)"
  using assms by (induction fs) simp_all

lemma max_length_same:
  assumes "xss \<noteq> []" "\<forall>xs \<in> set xss. length xs = n"
  shows "max_length xss = n"
  using assms
proof (induction xss)
  case Nil then show ?case by simp
next
  case (Cons a xss)
  show ?case
  proof (cases "xss = []")
    case True with Cons.prems show ?thesis by (simp add: max_length_def)
  next
    case False
    with Cons have "max_length xss = n" by simp
    with Cons.prems show ?thesis by (simp add: max_length_def)
  qed
qed

lemma concat_columns_stacked:
  assumes "bounded_forecasts n prd" "c \<in> set [''fcst'', ''fcst_lower'', ''fcst_upper'']"
  shows "concat_columns c prd = Inr (stacked c prd)"
proof -
  have each: "map_of (columns df) c = Some (column c df) \<and> length (column c df) = n"
    if "(k, df) \<in> set prd" for k df
    using bounded_column [OF assms(1) that assms(2)] .
  have 1: "collect c (map snd prd) = Inr (map (column c) (map snd prd))"
    by (rule collect_columns) (use each in auto)
  have ne: "map (column c) (map snd prd) \<noteq> []"
    using assms(1) by (simp add: bounded_forecasts_def)
  have "\<forall>xs \<in> set (map (column c) (map snd prd)). length xs = n"
    using each by auto
  from max_length_same [OF ne this]
  have ml: "max_length (map (column c) (map snd prd)) = n" .
  have pads: "map (pad n) (map (column c) (map snd prd)) = map (column c) (map snd prd)"
    using each by (auto simp add: pad_def)
  have z: "zip (map fst prd) (map (column c) (map snd prd)) = stacked c prd"
    unfolding stacked_def by (induction prd) auto
  show ?thesis
    by (simp only: concat_columns_def 1 sum.case ne if_False ml pads z)
qed

lemma stacked_lengths:
  assumes "bounded_forecasts n prd" "c \<in> set [''fcst'', ''fcst_lower'', ''fcst_upper'']"
  shows "\<forall>(k, v) \<in> set (stacked c prd). length v = n" and "stacked c prd \<noteq> []"
  using bounded_column [OF assms(1) _ assms(2)] assms(1)
  by (auto simp add: stacked_def bounded_forecasts_def)

lemma nrows_same:
  assumes "t \<noteq> []" "\<forall>(k, v) \<in> set t. length v = n"
  shows "nrows t = n"
  unfolding nrows_def
  by (rule max_length_same) (use assms in auto)

lemma row_same:
  assumes "\<forall>(k, v) \<in> set t. length v = n" "i < n"
  shows "row t i = map (\<lambda>(k, v). v ! i) t"
  using assms by (auto simp add: row_def)

lemma row_stacked:
  assumes "bounded_forecasts n prd" "c \<in> set [''fcst'', ''fcst_lower'', ''fcst_upper'']" "i < n"
  shows "row (stacked c prd) i = map (\<lambda>(k, df). column c df ! i) prd"
proof -
  have "row (stacked c prd) i = map (\<lambda>(k, v). v ! i) (stacked c prd)"
    by (rule row_same [OF stacked_lengths(1) [OF assms(1,2)] assms(3)])
  then show ?thesis by (simp add: stacked_def case_prod_unfold comp_def)
qed

lemma replace_with_nan_lengths:
  "\<forall>(k, v) \<in> set t. length v = n \<Longrightarrow> \<forall>(k, v) \<in> set (replace_with_nan a t). length v = n"
  by (auto simp add: replace_with_nan_def)

lemma row_replace_with_nan:
  assumes "\<forall>(k, v) \<in> set t. length v = n" "i < n"
  shows "row (replace_with_nan 0 t) i = map zero_to_nan (row t i)"
proof -
  have "row (replace_with_nan 0 t) i = map (\<lambda>(k, v). v ! i) (replace_with_nan 0 t)"
    by (rule row_same [OF replace_with_nan_lengths [OF assms(1)] assms(2)])
  also have "\<dots> = map zero_to_nan (map (\<lambda>(k, v). v ! i) t)"
    using assms by (auto simp add: replace_with_nan_def zero_to_nan_def)
  also have "map (\<lambda>(k, v). v ! i) t = row t i"
    by (rule row_same [OF assms, symmetric])
  finally show ?thesis .
qed

lemma median_rows_same:
  assumes "t \<noteq> []" "\<forall>(k, v) \<in> set t. length v = n"
  shows "median_rows t = map (\<lambda>i. median (present (row t i))) [0..<n]"
  by (simp add: median_rows_def nrows_same [OF assms])

lemma median_pair: "median [a, b] = Some ((a + b) / 2)"
  by (simp add: median_def Let_def add.commute)

lemma zero_to_nan_fun: "zero_to_nan = (\<lambda>c. if c = Some 0 then None else c)"
  by (rule ext) (simp add: zero_to_nan_def)

lemma median_rows_stacked:
  assumes "bounded_forecasts n prd" "c \<in> set [''fcst'', ''fcst_lower'', ''fcst_upper'']"
  shows "median_rows (stacked c prd) =
           map (\<lambda>i. median (present (map (\<lambda>(k, x). column c x ! i) prd))) [0..<n]"
proof -
  note l = stacked_lengths [OF assms]
  have "median_rows (stacked c prd) = map (\<lambda>i. median (present (row (stacked c prd) i))) [0..<n]"
    by (rule median_rows_same [OF l(2) l(1)])
  also have "\<dots> = map (\<lambda>i. median (present (map (\<lambda>(k, x). column c x ! i) prd))) [0..<n]"
    by (rule map_cong [OF refl]) (simp add: row_stacked [OF assms])
  finally show ?thesis .
qed

lemma median_rows_cleaned:
  assumes "bounded_forecasts n prd" "c \<in> set [''fcst'', ''fcst_lower'', ''fcst_upper'']"
  shows "median_rows (replace_with_nan 0 (stacked c prd)) =
           map (\<lambda>i. median (present (map (\<lambda>(k, x). zero_to_nan (column c x ! i)) prd))) [0..<n]"
proof -
  note l = stacked_lengths [OF assms]
  have ne: "replace_with_nan 0 (stacked c prd) \<noteq> []"
    using l(2) by (simp add: replace_with_nan_def)
  have "median_rows (replace_with_nan 0 (stacked c prd))
          = map (\<lambda>i. median (present (row (replace_with_nan 0 (stacked c prd)) i))) [0..<n]"
    by (rule median_rows_same [OF ne replace_with_nan_lengths [OF l(1)]])
  also have "\<dots> = map (\<lambda>i. median (present (map (\<lambda>(k, x). zero_to_nan (column c x ! i)) prd))) [0..<n]"
    by (rule map_cong [OF refl])
       (simp add: row_replace_with_nan [OF l(1)] row_stacked [OF assms] case_prod_unfold comp_def)
  finally show ?thesis .
qed

lemma three_forecasts_bounded: "bounded_forecasts 2 three_forecasts"
  by (simp add: bounded_forecasts_def three_forecasts_def)

lemma two_bounded_bounded: "bounded_forecasts 1 two_bounded"
  by (simp add: bounded_forecasts_def two_bounded_def)

lemma upt_2: "[0..<2] = [0, 1]"
  by (simp add: numeral_2_eq_2)

lemma three_forecasts_medians:
  "map (\<lambda>i. median (present (map (\<lambda>(k, x). column ''fcst'' x ! i) three_forecasts))) [0..<2]
     = [Some 30, Some 50]"
  "map (\<lambda>i. median (present (map (\<lambda>(k, x). zero_to_nan (column ''fcst_lower'' x ! i))
                                three_forecasts))) [0..<2]
     = [Some 14, Some 40]"
  "map (\<lambda>i. median (present (map (\<lambda>(k, x). zero_to_nan (column ''fcst_upper'' x ! i))
                                three_forecasts))) [0..<2]
     = [Some 22, Some 42]"
  by (simp_all add: upt_2 three_forecasts_def column_def present_def median_def zero_to_nan_def
      Let_def)

text \<open>
  C6. In median mode, on a batch of forecasts of \<open>n\<close> rows with the three columns and as
  many dates, \<open>aggregate\<close> succeeds. Each row of its \<open>fcst\<close> is the median of the models'
  values in that row that are not not-a-number; each row of its \<open>fcst_lower\<close> and
  \<open>fcst_upper\<close> is the median of the models' bounds in that row after every zero has been
  replaced by not-a-number, again over the values that are not not-a-number only. So where
  exactly two models have a usable bound in a row, as in a batch of three models of which
  one has not-a-number bounds throughout, the median is the mean of these two values.
  The cleaning step maps zero to not-a-number in both tables of bounds, leaves the point
  forecasts alone, and maps no not-a-number to zero.
\<close>

theorem aggregate_median:
  assumes prd: "predicted self = Some prd"
    and ok: "bounded_forecasts n prd"
    and mode: "lower (param_aggregation (params self)) = ''median''"
    and dl: "length dates = n"
  shows "\<exists>df. aggregate self dates = Inr df
     \<and> map_of (columns df) ''fcst'' =
         Some (map (\<lambda>i. median (present (map (\<lambda>(k, x). column ''fcst'' x ! i) prd))) [0..<n])
     \<and> map_of (columns df) ''fcst_lower'' =
         Some (map (\<lambda>i. median (present
                 (map (\<lambda>(k, x). zero_to_nan (column ''fcst_lower'' x ! i)) prd))) [0..<n])
     \<and> map_of (columns df) ''fcst_upper'' =
         Some (map (\<lambda>i. median (present
                 (map (\<lambda>(k, x). zero_to_nan (column ''fcst_upper'' x ! i)) prd))) [0..<n])
     \<and> (\<forall>i a b. i < n
           \<and> present (map (\<lambda>(k, x). zero_to_nan (column ''fcst_lower'' x ! i)) prd) = [a, b]
           \<longrightarrow> the (map_of (columns df) ''fcst_lower'') ! i = Some ((a + b) / 2))
     \<and> (\<forall>i a b. i < n
           \<and> present (map (\<lambda>(k, x). zero_to_nan (column ''fcst_upper'' x ! i)) prd) = [a, b]
           \<longrightarrow> the (map_of (columns df) ''fcst_upper'') ! i = Some ((a + b) / 2))
     \<and> fcst_lower (clean_dummy_CI fs False) = map (\<lambda>(k, v). (k, map zero_to_nan v)) (fcst_lower fs)
     \<and> fcst_upper (clean_dummy_CI fs False) = map (\<lambda>(k, v). (k, map zero_to_nan v)) (fcst_upper fs)
     \<and> fcst (clean_dummy_CI fs False) = fcst fs"
proof -
  let ?f = "map (\<lambda>i. median (present (map (\<lambda>(k, x). column ''fcst'' x ! i) prd))) [0..<n]"
  let ?lo = "map (\<lambda>i. median (present
                 (map (\<lambda>(k, x). zero_to_nan (column ''fcst_lower'' x ! i)) prd))) [0..<n]"
  let ?up = "map (\<lambda>i. median (present
                 (map (\<lambda>(k, x). zero_to_nan (column ''fcst_upper'' x ! i)) prd))) [0..<n]"
  let ?df = "\<lparr>index = map (\<lambda>i. Some (real i)) [0..<n],
             columns = [(''time'', dates), (''fcst'', ?f), (''fcst_lower'', ?lo),
                        (''fcst_upper'', ?up)]\<rparr>"
  have c1: "concat_columns ''fcst'' prd = Inr (stacked ''fcst'' prd)"
    by (rule concat_columns_stacked [OF ok]) simp
  have c2: "concat_columns ''fcst_lower'' prd = Inr (stacked ''fcst_lower'' prd)"
    by (rule concat_columns_stacked [OF ok]) simp
  have c3: "concat_columns ''fcst_upper'' prd = Inr (stacked ''fcst_upper'' prd)"
    by (rule concat_columns_stacked [OF ok]) simp
  have m1: "median_rows (stacked ''fcst'' prd) = ?f"
    by (rule median_rows_stacked [OF ok]) simp
  have m2: "median_rows (replace_with_nan 0 (stacked ''fcst_lower'' prd)) = ?lo"
    by (rule median_rows_cleaned [OF ok]) simp
  have m3: "median_rows (replace_with_nan 0 (stacked ''fcst_upper'' prd)) = ?up"
    by (rule median_rows_cleaned [OF ok]) simp
  have r: "result_frame dates ?f ?lo ?up = Inr ?df"
    using dl by (simp add: result_frame_def)
  have a: "aggregate self dates = Inr ?df"
    by (simp add: aggregate_def prd c1 c2 c3 mode clean_dummy_CI_def Let_def m1 m2 m3 r)
  show ?thesis
  proof (rule exI [of _ ?df], intro conjI)
    show "aggregate self dates = Inr ?df" by (rule a)
    show "map_of (columns ?df) ''fcst'' = Some ?f" by simp
    show "map_of (columns ?df) ''fcst_lower'' = Some ?lo" by simp
    show "map_of (columns ?df) ''fcst_upper'' = Some ?up" by simp
    show "\<forall>i a b. i < n
           \<and> present (map (\<lambda>(k, x). zero_to_nan (column ''fcst_lower'' x ! i)) prd) = [a, b]
           \<longrightarrow> the (map_of (columns ?df) ''fcst_lower'') ! i = Some ((a + b) / 2)"
      by (simp add: median_pair)
    show "\<forall>i a b. i < n
           \<and> present (map (\<lambda>(k, x). zero_to_nan (column ''fcst_upper'' x ! i)) prd) = [a, b]
           \<longrightarrow> the (map_of (columns ?df) ''fcst_upper'') ! i = Some ((a + b) / 2)"
      by (simp add: median_pair)
    show "fcst_lower (clean_dummy_CI fs False) = map (\<lambda>(k, v). (k, map zero_to_nan v)) (fcst_lower fs)"
      by (simp add: clean_dummy_CI_def replace_with_nan_def zero_to_nan_fun)
    show "fcst_upper (clean_dummy_CI fs False) = map (\<lambda>(k, v). (k, map zero_to_nan v)) (fcst_upper fs)"
      by (simp add: clean_dummy_CI_def replace_with_nan_def zero_to_nan_fun)
    show "fcst (clean_dummy_CI fs False) = fcst fs"
      by (simp add: clean_dummy_CI_def)
  qed
qed

theorem aggregate_median_witness:
  "\<exists>df. aggregate median_ensemble [Some 6, Some 7] = Inr df
     \<and> map_of (columns df) ''fcst'' = Some [Some 30, Some 50]
     \<and> map_of (columns df) ''fcst_lower'' = Some [Some 14, Some 40]
     \<and> map_of (columns df) ''fcst_upper'' = Some [Some 22, Some 42]"
proof -
  have 1: "predicted median_ensemble = Some three_forecasts" by (simp add: median_ensemble_def)
  have 3: "lower (param_aggregation (params median_ensemble)) = ''median''"
    by (simp add: median_ensemble_def ensemble0_def params0_def lower_def lower_char_def)
  have 4: "length [Some 6, Some (7::real)] = 2" by simp
  from aggregate_median [OF 1 three_forecasts_bounded 3 4, of "\<lparr>fcst = [], fcst_lower = [], fcst_upper = []\<rparr>"]
  obtain df where "aggregate median_ensemble [Some 6, Some 7] = Inr df"
    and "map_of (columns df) ''fcst'' = Some [Some 30, Some 50]"
    and "map_of (columns df) ''fcst_lower'' = Some [Some 14, Some 40]"
    and "map_of (columns df) ''fcst_upper'' = Some [Some 22, Some 42]"
    unfolding three_forecasts_medians by (elim exE conjE) (rule that, assumption+)
  then show ?thesis by (intro exI [of _ df] conjI)

qed

lemma any_null_stacked:
  "any_null (stacked c prd) \<longleftrightarrow> (\<exists>(k, x) \<in> set prd. None \<in> set (column c x))"
  by (induction prd) (auto simp add: any_null_def stacked_def list_ex_iff)

lemma foldl_cell_add_None: "foldl (cell_op (+)) None xs = None"
  by (induction xs) simp_all

lemma dot_row_acc:
  assumes "length cs = length w"
  shows "foldl (cell_op (+)) (Some a) (map2 (\<lambda>c b. cell_op (*) c (Some b)) cs w) =
           (if None \<in> set cs then None
            else Some (a + (\<Sum>(c, b) \<leftarrow> zip (map the cs) w. c * b)))"
  using assms
proof (induction cs w arbitrary: a rule: list_induct2)
  case Nil then show ?case by simp
next
  case (Cons c cs b w)
  show ?case
  proof (cases c)
    case None then show ?thesis by (simp add: foldl_cell_add_None)
  next
    case (Some x)
    with Cons.IH [of "a + x * b"] show ?thesis by (simp add: add.assoc)
  qed
qed

lemma dot_row_claimed:
  "length cs = length w \<Longrightarrow> dot_row cs w = claimed_dot cs w"
  by (simp add: dot_row_def claimed_dot_def dot_row_acc)

lemma dot_stacked:
  assumes "bounded_forecasts n prd" "c \<in> set [''fcst'', ''fcst_lower'', ''fcst_upper'']"
    and "length w = length prd"
  shows "dot (stacked c prd) w =
           Inr (map (\<lambda>i. claimed_dot (map (\<lambda>(k, x). column c x ! i) prd) w) [0..<n])"
proof -
  note l = stacked_lengths [OF assms(1,2)]
  have len: "length (stacked c prd) = length w" using assms(3) by (simp add: stacked_def)
  have "map (\<lambda>i. dot_row (row (stacked c prd) i) w) [0..<n]
          = map (\<lambda>i. claimed_dot (map (\<lambda>(k, x). column c x ! i) prd) w) [0..<n]"
    by (rule map_cong [OF refl])
       (simp add: row_stacked [OF assms(1,2)] dot_row_claimed assms(3))
  then show ?thesis
    using len by (simp add: dot_def nrows_same [OF l(2) l(1)])
qed

lemma two_bounded_dots:
  "map (\<lambda>i. claimed_dot (map (\<lambda>(k, x). column ''fcst'' x ! i) two_bounded)
                 (map snd [(''A'', 3 / 10), (''B'', 7 / 10)])) [0..<1] = [Some 17]"
  "map (\<lambda>i. claimed_dot (map (\<lambda>(k, x). column ''fcst_lower'' x ! i) two_bounded)
                 (map snd [(''A'', 3 / 10), (''B'', 7 / 10)])) [0..<1] = [Some 15]"
  "map (\<lambda>i. claimed_dot (map (\<lambda>(k, x). column ''fcst_upper'' x ! i) two_bounded)
                 (map snd [(''A'', 3 / 10), (''B'', 7 / 10)])) [0..<1] = [Some 19]"
  by (simp_all add: two_bounded_def column_def claimed_dot_def)

lemma two_bounded_finite:
  "\<not> (\<exists>(k, x) \<in> set two_bounded. None \<in> set (column ''fcst_lower'' x)
                                     \<or> None \<in> set (column ''fcst_upper'' x))"
  by (simp add: two_bounded_def column_def)

lemma three_forecasts_nan:
  "\<exists>(k, x) \<in> set three_forecasts. None \<in> set (column ''fcst_lower'' x)
                                   \<or> None \<in> set (column ''fcst_upper'' x)"
  by (simp add: three_forecasts_def column_def)

text \<open>
  C7. In weighted-average mode, on a batch of forecasts of \<open>n\<close> rows with the three
  columns, as many dates, and one weight for each model, \<open>aggregate\<close> raises the
  validation error exactly when the \<open>fcst_lower\<close> or \<open>fcst_upper\<close> column of some model
  contains a not-a-number; when none does, it succeeds and each row of each of its columns
  \<open>fcst\<close>, \<open>fcst_lower\<close> and \<open>fcst_upper\<close> is the dot product of the models' values in that
  row with the weight vector, in the order of the models.
\<close>

theorem aggregate_weighted:
  assumes prd: "predicted self = Some prd"
    and ok: "bounded_forecasts n prd"
    and mode: "lower (param_aggregation (params self)) \<noteq> ''median''"
    and ws: "weights self = Some ws"
    and wl: "length ws = length prd"
    and dl: "length dates = n"
  shows "(aggregate self dates
            = Inl (ValueError ''Conf. interval contains NaN, please check individual model'')
          \<longleftrightarrow> (\<exists>(k, x) \<in> set prd. None \<in> set (column ''fcst_lower'' x)
                                       \<or> None \<in> set (column ''fcst_upper'' x)))
     \<and> (\<not> (\<exists>(k, x) \<in> set prd. None \<in> set (column ''fcst_lower'' x)
                                  \<or> None \<in> set (column ''fcst_upper'' x))
          \<longrightarrow> (\<exists>df. aggregate self dates = Inr df
                \<and> map_of (columns df) ''fcst'' =
                    Some (map (\<lambda>i. claimed_dot (map (\<lambda>(k, x). column ''fcst'' x ! i) prd)
                                     (map snd ws)) [0..<n])
                \<and> map_of (columns df) ''fcst_lower'' =
                    Some (map (\<lambda>i. claimed_dot (map (\<lambda>(k, x). column ''fcst_lower'' x ! i) prd)
                                     (map snd ws)) [0..<n])
                \<and> map_of (columns df) ''fcst_upper'' =
                    Some (map (\<lambda>i. claimed_dot (map (\<lambda>(k, x). column ''fcst_upper'' x ! i) prd)
                                     (map snd ws)) [0..<n])))"
proof -
  let ?nan = "\<exists>(k, x) \<in> set prd. None \<in> set (column ''fcst_lower'' x)
                                       \<or> None \<in> set (column ''fcst_upper'' x)"
  let ?col = "\<lambda>c. map (\<lambda>i. claimed_dot (map (\<lambda>(k, x). column c x ! i) prd) (map snd ws)) [0..<n]"
  let ?df = "\<lparr>index = map (\<lambda>i. Some (real i)) [0..<n],
             columns = [(''time'', dates), (''fcst'', ?col ''fcst''),
                        (''fcst_lower'', ?col ''fcst_lower''),
                        (''fcst_upper'', ?col ''fcst_upper'')]\<rparr>"
  have c1: "concat_columns ''fcst'' prd = Inr (stacked ''fcst'' prd)"
    by (rule concat_columns_stacked [OF ok]) simp
  have c2: "concat_columns ''fcst_lower'' prd = Inr (stacked ''fcst_lower'' prd)"
    by (rule concat_columns_stacked [OF ok]) simp
  have c3: "concat_columns ''fcst_upper'' prd = Inr (stacked ''fcst_upper'' prd)"
    by (rule concat_columns_stacked [OF ok]) simp
  have nan: "(any_null (stacked ''fcst_lower'' prd) \<or> any_null (stacked ''fcst_upper'' prd)) = ?nan"
    by (auto simp add: any_null_stacked)
  have wl': "length (map snd ws) = length prd" using wl by simp
  have d1: "dot (stacked ''fcst'' prd) (map snd ws) = Inr (?col ''fcst'')"
    by (rule dot_stacked [OF ok _ wl']) simp
  have d2: "dot (stacked ''fcst_lower'' prd) (map snd ws) = Inr (?col ''fcst_lower'')"
    by (rule dot_stacked [OF ok _ wl']) simp
  have d3: "dot (stacked ''fcst_upper'' prd) (map snd ws) = Inr (?col ''fcst_upper'')"
    by (rule dot_stacked [OF ok _ wl']) simp
  have r: "result_frame dates (?col ''fcst'') (?col ''fcst_lower'') (?col ''fcst_upper'') = Inr ?df"
    using dl by (simp add: result_frame_def)
  have "aggregate self dates =
             (if any_null (stacked ''fcst_lower'' prd) \<or> any_null (stacked ''fcst_upper'' prd)
              then Inl (ValueError ''Conf. interval contains NaN, please check individual model'')
              else Inr ?df)"
    by (simp add: aggregate_def prd c1 c2 c3 mode ws d1 d2 d3 r)
  then have a: "aggregate self dates =
             (if ?nan then Inl (ValueError ''Conf. interval contains NaN, please check individual model'')
              else Inr ?df)"
    by (simp only: nan)
  show ?thesis
  proof (intro conjI impI)
    show "(aggregate self dates
            = Inl (ValueError ''Conf. interval contains NaN, please check individual model''))
          \<longleftrightarrow> ?nan"
      by (simp add: a)
  next
    assume "\<not> ?nan"
    then have e: "aggregate self dates = Inr ?df" by (simp add: a)
    show "\<exists>df. aggregate self dates = Inr df
                \<and> map_of (columns df) ''fcst'' = Some (?col ''fcst'')
                \<and> map_of (columns df) ''fcst_lower'' = Some (?col ''fcst_lower'')
                \<and> map_of (columns df) ''fcst_upper'' = Some (?col ''fcst_upper'')"
      by (rule exI [of _ ?df]) (simp add: e)
  qed
qed

theorem aggregate_weighted_witness:
  "aggregate weighted_nan_ensemble [Some 6, Some 7]
     = Inl (ValueError ''Conf. interval contains NaN, please check individual model'')
   \<and> (\<exists>df. aggregate weighted_ensemble [Some 5] = Inr df
         \<and> map_of (columns df) ''fcst'' = Some [Some 17]
         \<and> map_of (columns df) ''fcst_lower'' = Some [Some 15]
         \<and> map_of (columns df) ''fcst_upper'' = Some [Some 19])"
proof -
  have m: "lower ''weightedavg'' \<noteq> ''median''" by (simp add: lower_def lower_char_def)
  have a1: "predicted weighted_nan_ensemble = Some three_forecasts"
    and a3: "lower (param_aggregation (params weighted_nan_ensemble)) \<noteq> ''median''"
    and a4: "weights weighted_nan_ensemble
               = Some [(''arima'', 1 / 2), (''linear'', 1 / 4), (''theta'', 1 / 4)]"
    using m by (simp_all add: weighted_nan_ensemble_def ensemble1_def params1_def)
  have a5: "length [(''arima'', 1 / 2 :: real), (''linear'', 1 / 4), (''theta'', 1 / 4)]
              = length three_forecasts"
    by (simp add: three_forecasts_def)
  have a6: "length [Some 6, Some (7::real)] = 2" by simp
  have b1: "predicted weighted_ensemble = Some two_bounded"
    and b3: "lower (param_aggregation (params weighted_ensemble)) \<noteq> ''median''"
    and b4: "weights weighted_ensemble = Some [(''A'', 3 / 10), (''B'', 7 / 10)]"
    using m by (simp_all add: weighted_ensemble_def ensemble1_def params1_def)
  have b5: "length [(''A'', 3 / 10 :: real), (''B'', 7 / 10)] = length two_bounded"
    by (simp add: two_bounded_def)
  have b6: "length [Some (5::real)] = 1" by simp
  from aggregate_weighted [OF a1 three_forecasts_bounded a3 a4 a5 a6, THEN conjunct1]
    three_forecasts_nan
  have 1: "aggregate weighted_nan_ensemble [Some 6, Some 7]
             = Inl (ValueError ''Conf. interval contains NaN, please check individual model'')"
    by (rule iffD2)
  from aggregate_weighted [OF b1 two_bounded_bounded b3 b4 b5 b6, THEN conjunct2, THEN mp,
         OF two_bounded_finite]
  have 2: "\<exists>df. aggregate weighted_ensemble [Some 5] = Inr df
         \<and> map_of (columns df) ''fcst'' = Some [Some 17]
         \<and> map_of (columns df) ''fcst_lower'' = Some [Some 15]
         \<and> map_of (columns df) ''fcst_upper'' = Some [Some 19]"
    unfolding two_bounded_dots .
  from 1 2 show ?thesis by (rule conjI)
qed

end
